theory Spec2Isabelle
  imports Main
begin

section \<open>Python values, errors and the process environment\<close>

text \<open>
  The training script \<^verbatim>\<open>train.py\<close> is Python 2. An exception is a value of
  \<open>pyerror\<close>; a function that can raise returns \<open>Inl (error, world)\<close>, the world
  being the state of the process when the exception left the function.
\<close>

datatype pyerror = AssertionError | TypeError | NameError | KeyError | ValueError | OSError

datatype fsnode = File string | Dir "(string \<times> fsnode) list"

text \<open>
  The module global \<^verbatim>\<open>options\<close> exists only when the file runs as a script: it is
  assigned in the \<^verbatim>\<open>if __name__=="__main__"\<close> block. \<open>None\<close> is the name being
  undefined (the module was imported).
\<close>

record options =
  opt_copyFrom :: "string option"
  opt_triggerExampleBuilder :: "string option"

record world =
  fs :: "string \<rightharpoonup> fsnode"
  cwd :: string
  atexit :: "string list"
  logfile :: "string option"
  stderr :: "string list"
  tmpnames :: "string list"
  globals_options :: "options option"

type_synonym 'a result = "(pyerror \<times> world) + ('a \<times> world)"

definition then_do :: "(pyerror \<times> world) + 'a \<Rightarrow> ('a \<Rightarrow> (pyerror \<times> world) + 'b) \<Rightarrow> (pyerror \<times> world) + 'b" where
  "then_do r f = (case r of Inl e \<Rightarrow> Inl e | Inr x \<Rightarrow> f x)"

fun join :: "string \<Rightarrow> string list \<Rightarrow> string" where
  "join sep [] = []"
| "join sep [x] = x"
| "join sep (x # y # ys) = x @ sep @ join sep (y # ys)"

definition py_str :: "string option \<Rightarrow> string" where
  "py_str v = (case v of None \<Rightarrow> ''None'' | Some s \<Rightarrow> s)"

definition py_print :: "string list \<Rightarrow> world \<Rightarrow> world" where
  "py_print items w = w\<lparr>stderr := stderr w @ [join '' '' items]\<rparr>"

subsection \<open>The file system calls of the standard library\<close>

text \<open>
  A path is the key under which the program names a file or directory; a directory
  carries its whole tree, so removing the key removes everything below it.
\<close>

definition os_path_exists :: "world \<Rightarrow> string \<Rightarrow> bool" where
  "os_path_exists w p = (fs w p \<noteq> None)"

definition shutil_rmtree :: "string \<Rightarrow> world \<Rightarrow> (pyerror \<times> world) + world" where
  "shutil_rmtree p w =
     (case fs w p of
        Some (Dir _) \<Rightarrow> Inr (w\<lparr>fs := (fs w)(p := None)\<rparr>)
      | _ \<Rightarrow> Inl (OSError, w))"

definition os_makedirs :: "string \<Rightarrow> world \<Rightarrow> (pyerror \<times> world) + world" where
  "os_makedirs p w =
     (case fs w p of
        None \<Rightarrow> Inr (w\<lparr>fs := (fs w)(p \<mapsto> Dir [])\<rparr>)
      | Some _ \<Rightarrow> Inl (OSError, w))"

definition shutil_copytree :: "string option \<Rightarrow> string \<Rightarrow> world \<Rightarrow> (pyerror \<times> world) + world" where
  "shutil_copytree src dst w =
     (case src of
        None \<Rightarrow> Inl (TypeError, w)
      | Some s \<Rightarrow>
          (case fs w s of
             Some (Dir t) \<Rightarrow>
               (if fs w dst = None then Inr (w\<lparr>fs := (fs w)(dst \<mapsto> Dir t)\<rparr>)
                else Inl (OSError, w))
           | _ \<Rightarrow> Inl (OSError, w)))"

definition os_chdir :: "string \<Rightarrow> world \<Rightarrow> (pyerror \<times> world) + world" where
  "os_chdir p w =
     (case fs w p of
        Some (Dir _) \<Rightarrow> Inr (w\<lparr>cwd := p\<rparr>)
      | _ \<Rightarrow> Inl (OSError, w))"

definition openLog :: "string \<Rightarrow> world \<Rightarrow> world" where
  "openLog l w = w\<lparr>logfile := Some l\<rparr>"

subsection \<open>Strings and dictionaries\<close>

text \<open>
  \<^verbatim>\<open>s.replace(old, new)\<close> replaces the occurrences of \<open>old\<close> from the left, without
  overlap. \<open>replace_skip\<close> walks the string; its counter is the number of characters
  of a match still to be dropped.
\<close>

fun replace_skip :: "string \<Rightarrow> string \<Rightarrow> nat \<Rightarrow> string \<Rightarrow> string" where
  "replace_skip old new n [] = []"
| "replace_skip old new (Suc n) (c # cs) = replace_skip old new n cs"
| "replace_skip old new 0 (c # cs) =
     (if take (length old) (c # cs) = old
      then new @ replace_skip old new (length old - 1) cs
      else c # replace_skip old new 0 cs)"

definition py_replace :: "string \<Rightarrow> string \<Rightarrow> string \<Rightarrow> string" where
  "py_replace old new s =
     (if old = [] then new @ concat (map (\<lambda>c. c # new) s)
      else replace_skip old new 0 s)"

text \<open>\<^verbatim>\<open>sub in s\<close> on strings: \<open>sub\<close> occurs somewhere in \<open>s\<close>.\<close>

fun py_in :: "string \<Rightarrow> string \<Rightarrow> bool" where
  "py_in sub [] = (sub = [])"
| "py_in sub (c # cs) = (take (length sub) (c # cs) = sub \<or> py_in sub cs)"

text \<open>\<^verbatim>\<open>s.split(sep)\<close> for a separator of one character.\<close>

fun py_split :: "char \<Rightarrow> string \<Rightarrow> string list" where
  "py_split sep [] = [[]]"
| "py_split sep (c # cs) =
     (if c = sep then [] # py_split sep cs
      else (case py_split sep cs of
              [] \<Rightarrow> [[c]]
            | p # ps \<Rightarrow> (c # p) # ps))"

definition os_path_basename :: "string \<Rightarrow> string" where
  "os_path_basename p = last (py_split (CHR ''/'') p)"

definition os_path_join :: "string \<Rightarrow> string \<Rightarrow> string" where
  "os_path_join a b =
     (if take 1 b = ''/'' then b
      else if a = [] \<or> last a = CHR ''/'' then a @ b
      else a @ ''/'' @ b)"

function string_of_nat :: "nat \<Rightarrow> string" where
  "string_of_nat n =
     (if n < 10 then [''0123456789'' ! n]
      else string_of_nat (n div 10) @ [''0123456789'' ! (n mod 10)])"
  by pat_completeness auto
termination
  by (relation "measure (\<lambda>n. n)") auto

declare string_of_nat.simps [simp del]

text \<open>
  The values of a parameter dictionary: a string as the command line gives it, or an
  integer as the default seed \<open>0\<close> is.
\<close>

datatype pyval = PyStr string | PyInt int

definition str_val :: "pyval option \<Rightarrow> string" where
  "str_val v =
     (case v of
        None \<Rightarrow> ''None''
      | Some (PyStr s) \<Rightarrow> s
      | Some (PyInt i) \<Rightarrow> (if i < 0 then ''-'' @ string_of_nat (nat (- i)) else string_of_nat (nat i)))"

type_synonym 'v pydict = "string \<rightharpoonup> 'v"

definition getitem :: "'v pydict \<Rightarrow> string \<Rightarrow> world \<Rightarrow> (pyerror \<times> world) + 'v" where
  "getitem d k w = (case d k of None \<Rightarrow> Inl (KeyError, w) | Some v \<Rightarrow> Inr v)"

text \<open>
  \<^verbatim>\<open>tempfile.mkdtemp()\<close> makes a new directory; \<open>tmpnames\<close> holds the names the system
  will hand out.
\<close>

definition mkdtemp :: "world \<Rightarrow> (pyerror \<times> world) + (string \<times> world)" where
  "mkdtemp w =
     (case tmpnames w of
        [] \<Rightarrow> Inl (OSError, w)
      | t # ts \<Rightarrow> Inr (t, w\<lparr>fs := (fs w)(t \<mapsto> Dir []), tmpnames := ts\<rparr>))"

section \<open>getSubsets and getFolds\<close>

text \<open>
  \<^verbatim>\<open>Utils.InteractionXML.Subset.getSubset\<close> is a collaborator outside this file: the
  functions below take it as the parameter \<open>getSubset\<close>, applied to a description of
  the call. \<^verbatim>\<open>float(fraction)\<close> is the parameter \<open>pyfloat\<close>, \<open>None\<close> where Python
  raises ValueError.
\<close>

datatype 'f subset_call =
    SubsetFraction string string 'f "pyval option"
  | SubsetAttributes "string option" string "string list"

type_synonym 'f subsetter = "'f subset_call \<Rightarrow> world \<Rightarrow> (pyerror \<times> world) + world"

type_synonym inputfiles = "string option pydict"

text \<open>
  The body of the loop of \<^verbatim>\<open>getSubsets(inputFiles, subset, outdir="training")\<close> for one
  dataset. The state is the dictionary \<^verbatim>\<open>inputFiles\<close>, the variable \<^verbatim>\<open>outdir\<close> and
  the world; \<open>subsetd\<close> is the dictionary \<^verbatim>\<open>subset\<close>.
\<close>

definition getSubsets_step ::
  "(pyval \<Rightarrow> 'f option) \<Rightarrow> 'f subsetter \<Rightarrow> pyval option pydict \<Rightarrow> string
     \<Rightarrow> inputfiles \<times> string option \<times> world
     \<Rightarrow> (pyerror \<times> world) + (inputfiles \<times> string option \<times> world)" where
  "getSubsets_step pyfloat getSubset subsetd dataset st =
     (case st of (inputFiles, outdir, w) \<Rightarrow>
      then_do (getitem inputFiles dataset w) (\<lambda>inp.
      case inp of
        None \<Rightarrow> Inr st
      | Some path \<Rightarrow>
      if path = ''None'' then Inr st else
      then_do (getitem subsetd dataset w) (\<lambda>sd.
      then_do (if sd \<noteq> None then Inr True
               else then_do (getitem subsetd ''all'' w) (\<lambda>a. Inr (a \<noteq> None))) (\<lambda>wanted.
      if \<not> wanted then Inr st else
      then_do (if sd = None then getitem subsetd ''all'' w else Inr sd) (\<lambda>fraction.
      then_do (case outdir of None \<Rightarrow> mkdtemp w | Some d \<Rightarrow> Inr (d, w)) (\<lambda>(outdir1, w1).
      then_do (getitem subsetd ''seed'' w1) (\<lambda>seed.
      let outFileName = os_path_join outdir1
            (''subset_'' @ str_val fraction @ ''_'' @ str_val seed @ ''_'' @ os_path_basename path)
      in
      then_do
        (if \<not> os_path_exists w1 outFileName then
           (case fraction of
              None \<Rightarrow> Inl (TypeError, w1)
            | Some fr \<Rightarrow>
                (case pyfloat fr of
                   None \<Rightarrow> Inl (ValueError, w1)
                 | Some x \<Rightarrow> getSubset (SubsetFraction path outFileName x seed) w1))
         else Inr w1) (\<lambda>w2.
      Inr (inputFiles(dataset \<mapsto> Some outFileName), Some outdir1, w2)))))))))"

fun getSubsets_loop ::
  "(pyval \<Rightarrow> 'f option) \<Rightarrow> 'f subsetter \<Rightarrow> pyval option pydict \<Rightarrow> string list
     \<Rightarrow> inputfiles \<times> string option \<times> world
     \<Rightarrow> (pyerror \<times> world) + (inputfiles \<times> string option \<times> world)" where
  "getSubsets_loop pyfloat getSubset subsetd [] st = Inr st"
| "getSubsets_loop pyfloat getSubset subsetd (dataset # rest) st =
     then_do (getSubsets_step pyfloat getSubset subsetd dataset st)
       (getSubsets_loop pyfloat getSubset subsetd rest)"

definition getSubsets ::
  "(pyval \<Rightarrow> 'f option) \<Rightarrow> 'f subsetter \<Rightarrow> inputfiles \<Rightarrow> pyval option pydict \<Rightarrow> string option
     \<Rightarrow> world \<Rightarrow> inputfiles result" where
  "getSubsets pyfloat getSubset inputFiles subsetd outdir w =
     then_do (getSubsets_loop pyfloat getSubset subsetd [''devel'', ''train'', ''test'']
                (inputFiles, outdir, w))
       (\<lambda>(inputFiles1, outdir1, w1). Inr (inputFiles1, w1))"

text \<open>
  \<^verbatim>\<open>getFolds(inputFiles, folds, outdir="training")\<close>. A value of the dictionary
  \<^verbatim>\<open>folds\<close> is None, one label or a list of labels. The loop assigns
  \<^verbatim>\<open>folds = folds[dataset]\<close>: the variable that held the dictionary holds a value of it
  from the first round on, so \<open>foldsvar\<close> has both shapes, and indexing a value by a
  dataset name is a TypeError.
\<close>

datatype foldval = FoldStr string | FoldList "string list"

datatype foldsvar = FoldsDict "foldval option pydict" | FoldsValue "foldval option"

definition folds_getitem :: "foldsvar \<Rightarrow> string \<Rightarrow> world \<Rightarrow> (pyerror \<times> world) + foldval option" where
  "folds_getitem folds k w =
     (case folds of
        FoldsDict d \<Rightarrow> getitem d k w
      | FoldsValue v \<Rightarrow> Inl (TypeError, w))"

definition fold_labels :: "foldval \<Rightarrow> string list" where
  "fold_labels v = (case v of FoldStr s \<Rightarrow> [s] | FoldList ls \<Rightarrow> ls)"

definition getFolds_step ::
  "'f subsetter \<Rightarrow> string \<Rightarrow> inputfiles \<times> foldsvar \<times> string option \<times> world
     \<Rightarrow> (pyerror \<times> world) + (inputfiles \<times> foldsvar \<times> string option \<times> world)" where
  "getFolds_step getSubset dataset st =
     (case st of (inputFiles, folds0, outdir, w) \<Rightarrow>
      then_do (folds_getitem folds0 dataset w) (\<lambda>folds1.
      case folds1 of
        None \<Rightarrow> Inr (inputFiles(''dataset'' \<mapsto> None), FoldsValue None, outdir, w)
      | Some v \<Rightarrow>
      let folds = fold_labels v;
          idString = py_replace ''train'' ''t'' (join ''_'' folds)
      in
      then_do (case outdir of None \<Rightarrow> mkdtemp w | Some d \<Rightarrow> Inr (d, w)) (\<lambda>(outdir1, w1).
      let outFileName = os_path_join outdir1 (dataset @ ''-'' @ idString @ ''.xml'') in
      then_do
        (if \<not> os_path_exists w1 outFileName then
           then_do (getitem inputFiles ''train'' w1) (\<lambda>src.
             getSubset (SubsetAttributes src outFileName folds) w1)
         else Inr w1) (\<lambda>w2.
      Inr (inputFiles(dataset \<mapsto> Some outFileName), FoldsValue (Some (FoldList folds)),
           Some outdir1, w2)))))"

fun getFolds_loop ::
  "'f subsetter \<Rightarrow> string list \<Rightarrow> inputfiles \<times> foldsvar \<times> string option \<times> world
     \<Rightarrow> (pyerror \<times> world) + (inputfiles \<times> foldsvar \<times> string option \<times> world)" where
  "getFolds_loop getSubset [] st = Inr st"
| "getFolds_loop getSubset (dataset # rest) st =
     then_do (getFolds_step getSubset dataset st) (getFolds_loop getSubset rest)"

definition getFolds ::
  "'f subsetter \<Rightarrow> inputfiles \<Rightarrow> foldval option pydict \<Rightarrow> string option \<Rightarrow> world
     \<Rightarrow> inputfiles result" where
  "getFolds getSubset inputFiles folds outdir w =
     then_do (getitem folds ''train'' w) (\<lambda>ft.
     then_do (if ft = None then Inr True
              else then_do (getitem folds ''devel'' w) (\<lambda>fd. Inr (fd = None))) (\<lambda>nothing.
     if nothing then Inr (inputFiles, w) else
     then_do (getitem inputFiles ''devel'' w) (\<lambda>dv.
     if dv = None \<or> dv = Some ''None'' then
       then_do (getitem inputFiles ''test'' w) (\<lambda>tv.
       if tv = None \<or> tv = Some ''None'' then
         then_do (getFolds_loop getSubset [''devel'', ''train'', ''test'']
                    (inputFiles, FoldsDict folds, outdir, w))
           (\<lambda>(inputFiles1, folds1, outdir1, w1). Inr (inputFiles1, w1))
       else Inl (AssertionError, w))
     else Inl (AssertionError, w))))"

text \<open>
  A stand-in for the collaborator, for running the functions on concrete inputs: it
  writes the output file, whose content names the source and the selection.
\<close>

definition write_subset :: "string subsetter" where
  "write_subset c w =
     (case c of
        SubsetFraction src out fr seed \<Rightarrow>
          Inr (w\<lparr>fs := (fs w)(out \<mapsto> File (src @ '' fraction '' @ fr @ '' seed '' @ str_val seed))\<rparr>)
      | SubsetAttributes src out labels \<Rightarrow>
          Inr (w\<lparr>fs := (fs w)(out \<mapsto> File (py_str src @ '' set '' @ join '','' labels))\<rparr>))"

definition float_text :: "pyval \<Rightarrow> string option" where
  "float_text v =
     (case v of
        PyInt i \<Rightarrow> Some (str_val (Some (PyInt i)))
      | PyStr s \<Rightarrow> (if s \<noteq> [] \<and> list_all (\<lambda>c. c \<in> set ''0123456789.'') s then Some s else None))"

definition empty_world :: world where
  "empty_world =
     \<lparr>fs = Map.empty, cwd = ''/home'', atexit = [], logfile = None, stderr = [],
      tmpnames = [], globals_options = None\<rparr>"

text \<open>Concrete inputs: a training file only, half of it as a subset, and two fold requests
  that name the same labels for devel in different orders.\<close>

definition files0 :: inputfiles where
  "files0 = [''train'' \<mapsto> Some ''data/corpus.xml'', ''devel'' \<mapsto> None, ''test'' \<mapsto> None]"

definition subset0 :: "pyval option pydict" where
  "subset0 = [''train'' \<mapsto> Some (PyStr ''0.5''), ''devel'' \<mapsto> None, ''test'' \<mapsto> None,
              ''seed'' \<mapsto> Some (PyInt 0), ''all'' \<mapsto> None]"

definition folds_ba :: "foldval option pydict" where
  "folds_ba = [''train'' \<mapsto> Some (FoldList [''train'']),
               ''devel'' \<mapsto> Some (FoldList [''b'', ''a'']), ''test'' \<mapsto> None]"

definition folds_ab :: "foldval option pydict" where
  "folds_ab = [''train'' \<mapsto> Some (FoldList [''train'']),
               ''devel'' \<mapsto> Some (FoldList [''a'', ''b'']), ''test'' \<mapsto> None]"

section \<open>getSteps and the step selector\<close>

text \<open>
  \<^verbatim>\<open>getSteps(step, omitSteps, mainSteps)\<close> starts with
  \<^verbatim>\<open>step = Parameters.get(step, mainSteps)\<close>; the model begins after that call, with the
  dictionary it returns, written as the list of its items in the order \<^verbatim>\<open>step.keys()\<close>
  gives them. A value is None, True, one substep name or a list of names.
\<close>

datatype stepval = StepTrue | StepStr string | StepList "string list"

text \<open>
  Modelled from the spec: the class \<^verbatim>\<open>Detectors.StepSelector\<close> is not among the sources.
  A selector is constructed with the ordered list of phase names, an optional resume
  phase and the phases to omit.
\<close>

record stepselector =
  sel_steps :: "string list"
  sel_fromStep :: "string option"
  sel_omitSteps :: "string list"

text \<open>
  Modelled from the spec: the constructor of \<^verbatim>\<open>StepSelector\<close>, as getSteps calls it, with
  one resume phase at most; it keeps its three arguments.
\<close>

definition StepSelector :: "string list \<Rightarrow> string option \<Rightarrow> string list \<Rightarrow> stepselector" where
  "StepSelector mainSteps fromStep omitSteps =
     \<lparr>sel_steps = mainSteps, sel_fromStep = fromStep, sel_omitSteps = omitSteps\<rparr>"

text \<open>
  Modelled from the spec: \<^verbatim>\<open>selector.check(phase)\<close>, the spec's \<open>shouldRun\<close>. It is false
  for a phase in the omit set, and otherwise true if no resume point is set or the phase
  occurs at or after the resume phase in the ordering.
\<close>

definition shouldRun :: "stepselector \<Rightarrow> string \<Rightarrow> bool" where
  "shouldRun sel phase =
     (if phase \<in> set (sel_omitSteps sel) then False
      else (case sel_fromStep sel of
              None \<Rightarrow> True
            | Some f \<Rightarrow> phase \<in> set (dropWhile (\<lambda>s. s \<noteq> f) (sel_steps sel))))"

text \<open>The first loop of getSteps: the phase to start from and the substep of each phase.\<close>

fun getSteps_from ::
  "(string \<times> stepval option) list \<Rightarrow> string option \<Rightarrow> stepval option pydict
     \<Rightarrow> pyerror + (string option \<times> stepval option pydict)" where
  "getSteps_from [] fromMainStep fromSubStep = Inr (fromMainStep, fromSubStep)"
| "getSteps_from ((mainStep, v) # rest) fromMainStep fromSubStep =
     (case v of
        None \<Rightarrow> getSteps_from rest fromMainStep (fromSubStep(mainStep \<mapsto> None))
      | Some x \<Rightarrow>
          if fromMainStep \<noteq> None then Inl AssertionError
          else (case x of
                  StepTrue \<Rightarrow> getSteps_from rest (Some mainStep) (fromSubStep(mainStep \<mapsto> None))
                | StepStr sub \<Rightarrow>
                    getSteps_from rest (Some mainStep) (fromSubStep(mainStep \<mapsto> Some (StepStr sub)))
                | StepList subs \<Rightarrow> Inl AssertionError))"

text \<open>The second loop: the phases to omit entirely and the substeps to omit.\<close>

fun getSteps_omit ::
  "(string \<times> stepval option) list \<Rightarrow> string list \<Rightarrow> stepval option pydict
     \<Rightarrow> string list \<times> stepval option pydict" where
  "getSteps_omit [] omitMainSteps omitSubSteps = (omitMainSteps, omitSubSteps)"
| "getSteps_omit ((mainStep, v) # rest) omitMainSteps omitSubSteps =
     (if v = Some StepTrue
      then getSteps_omit rest (omitMainSteps @ [mainStep]) (omitSubSteps(mainStep \<mapsto> None))
      else getSteps_omit rest omitMainSteps (omitSubSteps(mainStep \<mapsto> v)))"

definition getSteps ::
  "(string \<times> stepval option) list \<Rightarrow> (string \<times> stepval option) list \<Rightarrow> string list \<Rightarrow> world
     \<Rightarrow> (stepselector \<times> stepval option pydict \<times> stepval option pydict) result" where
  "getSteps step omitSteps mainSteps w =
     (case getSteps_from step None Map.empty of
        Inl e \<Rightarrow> Inl (e, w)
      | Inr (fromMainStep, fromSubStep) \<Rightarrow>
          (case getSteps_omit omitSteps [] Map.empty of
             (omitMainSteps, omitSubSteps) \<Rightarrow>
               Inr ((StepSelector mainSteps fromMainStep omitMainSteps, fromSubStep, omitSubSteps),
                    (case fromMainStep of
                       None \<Rightarrow> w
                     | Some f \<Rightarrow>
                         (case fromSubStep f of
                            Some (Some (StepStr sub)) \<Rightarrow>
                              py_print [''Starting process from step'', f @ '', substep'', sub] w
                          | _ \<Rightarrow> py_print [''Starting process from step'', f] w)))))"

definition mainSteps0 :: "string list" where
  "mainSteps0 = [''TRAIN'', ''DEVEL'', ''EMPTY'', ''TEST'']"





section \<open>getTaskSettings\<close>

text \<open>
  Modelled from the spec: the function \<^verbatim>\<open>Parameters.cat(default, predefined, ...)\<close> is
  not among the sources. The spec gives its rule as "concatenate unless override already
  set": a non-empty value already supplied for the slot is kept and the default is not
  applied; for an unset slot the result is the default fragment. Its further arguments
  only word a message.
\<close>

definition cat :: "string option \<Rightarrow> string option \<Rightarrow> string option" where
  "cat dflt predefined =
     (case predefined of
        None \<Rightarrow> dflt
      | Some v \<Rightarrow> (if v = [] then dflt else Some v))"

text \<open>
  Modelled from the spec: \<^verbatim>\<open>Catenate.catenate\<close> is not among the sources. It
  concatenates the named source files into one derived archive, cached by an existence
  check, and gives the archive's name.
\<close>

definition catenate :: "string list \<Rightarrow> string \<Rightarrow> world \<Rightarrow> string option \<times> world" where
  "catenate inputs output w =
     (if os_path_exists w output then (Some output, w)
      else (Some output, w\<lparr>fs := (fs w)(output \<mapsto> File (join ''+'' inputs))\<rparr>))"

type_synonym params = "string option pydict"

datatype detectorref = DetectorName string | DetectorClass string

record tasksettings =
  ts_detector :: "detectorref option"
  ts_processUnmerging :: "bool option"
  ts_processModifiers :: "bool option"
  ts_isSingleStage :: bool
  ts_bioNLPSTParams :: "string option"
  ts_preprocessorParams :: "string option"
  ts_inputFiles :: inputfiles
  ts_exampleStyles :: params
  ts_classifierParameters :: params
  ts_removeNamesFromEmpty :: bool

text \<open>\<^verbatim>\<open>int(s)\<close> on a string: blanks around an optional sign and decimal digits.\<close>

fun position :: "char \<Rightarrow> string \<Rightarrow> nat option" where
  "position c [] = None"
| "position c (x # xs) = (if c = x then Some 0 else map_option Suc (position c xs))"

definition digit_of :: "char \<Rightarrow> nat option" where
  "digit_of c = position c ''0123456789''"

fun digits_value :: "nat \<Rightarrow> string \<Rightarrow> nat option" where
  "digits_value acc [] = Some acc"
| "digits_value acc (c # cs) =
     (case digit_of c of
        None \<Rightarrow> None
      | Some d \<Rightarrow> digits_value (10 * acc + d) cs)"

definition is_blank :: "char \<Rightarrow> bool" where
  "is_blank c = (c \<in> set [CHR '' '', CHR 0x09, CHR 0x0A, CHR 0x0B, CHR 0x0C, CHR 0x0D])"

definition py_int :: "string \<Rightarrow> int option" where
  "py_int s =
     (let t = rev (dropWhile is_blank (rev (dropWhile is_blank s))) in
      case t of
        [] \<Rightarrow> None
      | c # cs \<Rightarrow>
          if c = CHR ''-'' then
            (if cs = [] then None else map_option (\<lambda>n. - int n) (digits_value 0 cs))
          else if c = CHR ''+'' then
            (if cs = [] then None else map_option int (digits_value 0 cs))
          else map_option int (digits_value 0 (c # cs)))"

definition recognizedTasks :: "string list" where
  "recognizedTasks =
     [''GE09'', ''GE09.1'', ''GE09.2'', ''GE11'', ''GE11.1'', ''GE11.2'', ''EPI11'', ''ID11'',
      ''BB11'', ''BI11'', ''BI11-FULL'', ''CO11'', ''REL11'', ''REN11'', ''DDI11'', ''DDI11-FULL'']"

text \<open>
  The sub-task: \<^verbatim>\<open>task, subTask = task.split(".")\<close> and \<^verbatim>\<open>int(subTask)\<close> when the
  task has a dot, else sub-task 2.
\<close>

definition split_task :: "string \<Rightarrow> world \<Rightarrow> (pyerror \<times> world) + (string \<times> int)" where
  "split_task task w =
     (if CHR ''.'' \<in> set task then
        (case py_split (CHR ''.'') task of
           [t, sub] \<Rightarrow> (case py_int sub of None \<Rightarrow> Inl (ValueError, w) | Some n \<Rightarrow> Inr (t, n))
         | _ \<Rightarrow> Inl (ValueError, w))
      else Inr (task, 2))"

text \<open>
  The default input files, below the corpus directory \<^verbatim>\<open>Settings.CORPUS_DIR\<close>, which
  is the parameter \<open>dataPath\<close>. The test \<^verbatim>\<open>x == None and x != "None"\<close> is \<^verbatim>\<open>x == None\<close>.
\<close>

definition default_inputFiles ::
  "string \<Rightarrow> string \<Rightarrow> inputfiles \<Rightarrow> world \<Rightarrow> (pyerror \<times> world) + (inputfiles \<times> world)" where
  "default_inputFiles dataPath task inputFiles w =
     then_do (getitem inputFiles ''devel'' w) (\<lambda>dv.
     let inputFiles1 =
           (if dv = None
            then inputFiles(''devel'' \<mapsto>
                   Some (os_path_join dataPath (py_replace ''-FULL'' [] task @ ''-devel.xml'')))
            else inputFiles)
     in
     then_do (getitem inputFiles1 ''train'' w) (\<lambda>tr.
     case (if tr = None then
             (if task = ''ID'' then
                (case catenate [os_path_join dataPath ''ID11-train.xml'',
                                os_path_join dataPath ''GE11-devel.xml'',
                                os_path_join dataPath ''GE11-train.xml'']
                        ''training/ID11-train-and-GE11-devel-and-train.xml.gz'' w of
                   (name, w1) \<Rightarrow> (inputFiles1(''train'' \<mapsto> name), w1))
              else (inputFiles1(''train'' \<mapsto>
                      Some (os_path_join dataPath (py_replace ''-FULL'' [] task @ ''-train.xml''))), w))
           else (inputFiles1, w)) of
       (inputFiles2, w2) \<Rightarrow>
     then_do (getitem inputFiles2 ''test'' w2) (\<lambda>te.
     Inr (if te = None
          then inputFiles2(''test'' \<mapsto>
                 Some (os_path_join dataPath (py_replace ''-FULL'' [] task @ ''-test.xml'')))
          else inputFiles2, w2))))"

definition default_detector :: "string \<Rightarrow> detectorref option \<Rightarrow> bool \<Rightarrow> detectorref option \<times> bool" where
  "default_detector task detector isSingleStage =
     (if detector = None then
        (if task = ''CO11'' then (Some (DetectorName ''Detectors.CODetector''), isSingleStage)
         else if task \<in> set [''REN11'', ''BI11'', ''DDI11'']
         then (Some (DetectorName ''Detectors.EdgeDetector''), True)
         else (Some (DetectorName ''Detectors.EventDetector''), isSingleStage))
      else (detector, isSingleStage))"

text \<open>
  The evaluation parameters: the calls are \<^verbatim>\<open>Parameters.cat(bioNLPSTParams, "convert:...")\<close>,
  the caller's value in the place of the default and the task's fragment in the place
  of the predefined value.
\<close>

definition default_bioNLPSTParams :: "string \<Rightarrow> string option \<Rightarrow> string option" where
  "default_bioNLPSTParams task bioNLPSTParams =
     (if task = ''BI11-FULL'' then cat bioNLPSTParams (Some ''convert:scores'')
      else if task = ''REL11'' then cat bioNLPSTParams (Some ''convert:evaluate:scores:a2Tag=rel'')
      else if task \<notin> set [''DDI11'', ''DDI11-FULL'']
      then cat bioNLPSTParams (Some ''convert:evaluate:scores'')
      else bioNLPSTParams)"

text \<open>
  The preprocessing parameters: \<^verbatim>\<open>Parameters.cat\<close> is called, and its value is not
  assigned to anything; \<^verbatim>\<open>preprocessorParams\<close> stays what the caller gave.
\<close>

definition default_preprocessorParams :: "string \<Rightarrow> string option \<Rightarrow> string option" where
  "default_preprocessorParams task preprocessorParams =
     (let unused =
            (if task \<in> set [''BI11'', ''BI11-FULL'', ''BB11'', ''DDI11'', ''DDI11-FULL'']
             then cat (Some ''intermediateFiles:omitSteps=NER,DIVIDE-SETS'') preprocessorParams
             else cat (Some ''intermediateFiles:omitSteps=DIVIDE-SETS:PARSE.requireEntities'')
                    preprocessorParams)
      in preprocessorParams)"

definition default_processUnmerging :: "string \<Rightarrow> bool \<Rightarrow> bool option \<Rightarrow> bool option" where
  "default_processUnmerging task isSingleStage processUnmerging =
     (if processUnmerging = None \<and> \<not> isSingleStage then
        (if task \<in> set [''CO11'', ''REL11'', ''BB11'', ''BI11-FULL'', ''DDI11-FULL'']
         then Some False else Some True)
      else processUnmerging)"

definition default_processModifiers :: "string \<Rightarrow> bool option \<Rightarrow> bool option" where
  "default_processModifiers task processModifiers =
     (if processModifiers = None then
        (if task \<in> set [''GE11'', ''EPI11'', ''ID11''] then Some True else Some False)
      else processModifiers)"

text \<open>\<^verbatim>\<open>d[k] = Parameters.cat(fragment, d[k], ...)\<close>.\<close>

definition cat_into :: "string \<Rightarrow> params \<Rightarrow> string \<Rightarrow> world \<Rightarrow> (pyerror \<times> world) + params" where
  "cat_into fragment d k w = then_do (getitem d k w) (\<lambda>v. Inr (d(k \<mapsto> cat (Some fragment) v)))"

text \<open>The example styles of a multi-stage detector: the edge style, then the trigger style.\<close>

definition default_edgeStyle :: "string \<Rightarrow> int \<Rightarrow> params \<Rightarrow> world \<Rightarrow> (pyerror \<times> world) + params" where
  "default_edgeStyle task subTask exampleStyles w =
     (if task \<in> set [''GE09'', ''GE11''] then
        then_do (cat_into ''trigger_features:typed:directed:no_linear:entities:auto_limits:noMasking:maxFeatures''
                   exampleStyles ''edge'' w) (\<lambda>es.
        if subTask = 1 then cat_into '':genia_task1'' es ''edge'' w else Inr es)
      else if task \<in> set [''BB11''] then
        cat_into ''trigger_features:typed:directed:no_linear:entities:auto_limits:noMasking:maxFeatures''
          exampleStyles ''edge'' w
      else if task = ''EPI11'' then
        cat_into ''trigger_features:typed:directed:no_linear:entities:auto_limits:noMasking:maxFeatures''
          exampleStyles ''edge'' w
      else if task = ''ID11'' then
        cat_into ''trigger_features:typed:directed:no_linear:entities:auto_limits:noMasking:maxFeatures''
          exampleStyles ''edge'' w
      else if task = ''REL11'' then
        cat_into ''trigger_features:typed:directed:no_linear:entities:noMasking:maxFeatures:auto_limits:rel_features''
          exampleStyles ''edge'' w
      else if task = ''CO11'' then
        cat_into ''trigger_features:typed:directed:no_linear:entities:noMasking:maxFeatures:auto_limits''
          exampleStyles ''edge'' w
      else if task = ''BI11-FULL'' then
        cat_into ''trigger_features:typed:directed:no_linear:entities:noMasking:maxFeatures:auto_limits''
          exampleStyles ''edge'' w
      else if task = ''DDI11-FULL'' then
        cat_into ''trigger_features:typed:no_linear:entities:noMasking:maxFeatures:ddi_features:filter_shortest_path=conj_and''
          exampleStyles ''edge'' w
      else
        cat_into ''trigger_features:typed:directed:no_linear:entities:noMasking:maxFeatures''
          exampleStyles ''edge'' w)"

text \<open>
  For CO11 the trigger branch assigns \<^verbatim>\<open>options.triggerExampleBuilder\<close>, an attribute of
  the module global; for BI11-FULL and DDI11-FULL it assigns the trigger style itself,
  without \<^verbatim>\<open>Parameters.cat\<close>.
\<close>

definition default_triggerStyle ::
  "string \<Rightarrow> int \<Rightarrow> params \<Rightarrow> world \<Rightarrow> (pyerror \<times> world) + (params \<times> world)" where
  "default_triggerStyle task subTask exampleStyles w =
     (if task \<in> set [''GE09'', ''GE11''] \<and> subTask = 1 then
        then_do (cat_into ''genia_task1'' exampleStyles ''trigger'' w) (\<lambda>es. Inr (es, w))
      else if task = ''EPI11'' then
        then_do (cat_into ''epi_merge_negated'' exampleStyles ''trigger'' w) (\<lambda>es. Inr (es, w))
      else if task = ''BB11'' then
        then_do (cat_into ''bb_features:build_for_nameless:wordnet'' exampleStyles ''trigger'' w)
          (\<lambda>es. Inr (es, w))
      else if task = ''REL11'' then
        then_do (cat_into ''rel_features'' exampleStyles ''trigger'' w) (\<lambda>es. Inr (es, w))
      else if task = ''CO11'' then
        (case globals_options w of
           None \<Rightarrow> Inl (NameError, w)
         | Some opts \<Rightarrow>
             Inr (exampleStyles,
                  w\<lparr>globals_options :=
                       Some (opts\<lparr>opt_triggerExampleBuilder := Some ''PhraseTriggerExampleBuilder''\<rparr>)\<rparr>))
      else if task \<in> set [''BI11-FULL'', ''DDI11-FULL''] then
        Inr (exampleStyles(''trigger'' \<mapsto> Some ''build_for_nameless:names''), w)
      else Inr (exampleStyles, w))"

definition default_exampleStyles ::
  "string \<Rightarrow> int \<Rightarrow> bool \<Rightarrow> params \<Rightarrow> world \<Rightarrow> (pyerror \<times> world) + (params \<times> world)" where
  "default_exampleStyles task subTask isSingleStage exampleStyles w =
     (if isSingleStage then
        (if task = ''REN11'' then
           then_do (cat_into ''trigger_features:typed:no_linear:entities:noMasking:maxFeatures:bacteria_renaming:maskTypeAsProtein=Gene''
                      exampleStyles ''examples'' w) (\<lambda>es. Inr (es, w))
         else if task = ''BI11'' then
           then_do (cat_into ''trigger_features:typed:directed:no_linear:entities:noMasking:maxFeatures:auto_limits''
                      exampleStyles ''examples'' w) (\<lambda>es. Inr (es, w))
         else if task = ''DDI11'' then
           then_do (cat_into ''trigger_features:typed:no_linear:entities:noMasking:maxFeatures:ddi_features:ddi_mtmx:filter_shortest_path=conj_and''
                      exampleStyles ''examples'' w) (\<lambda>es. Inr (es, w))
         else Inr (exampleStyles, w))
      else
        then_do (default_edgeStyle task subTask exampleStyles w) (\<lambda>es1.
        then_do (default_triggerStyle task subTask es1 w) (\<lambda>(es2, w1).
        then_do (cat_into ''trigger_features:typed:directed:no_linear:entities:genia_limits:noMasking:maxFeatures''
                   es2 ''unmerging'' w1) (\<lambda>es3. Inr (es3, w1)))))"

definition default_classifierParameters ::
  "string \<Rightarrow> bool \<Rightarrow> params \<Rightarrow> world \<Rightarrow> (pyerror \<times> world) + params" where
  "default_classifierParameters task isSingleStage classifierParameters w =
     (if isSingleStage then
        (if task = ''REN11'' then
           cat_into ''c=10,100,1000,2000,3000,4000,4500,5000,5500,6000,7500,10000,20000,25000,28000,50000,60000''
             classifierParameters ''examples'' w
         else if task = ''BI11'' then
           cat_into ''c=10,100,1000,2500,5000,7500,10000,20000,25000,28000,50000,60000,65000,80000,100000,150000''
             classifierParameters ''examples'' w
         else if task = ''DDI11'' then
           cat_into ''c=10,100,1000,2500,4000,5000,6000,7500,10000,20000,25000,50000:TEES.threshold''
             classifierParameters ''examples'' w
         else Inr classifierParameters)
      else
        then_do (cat_into ''c=1000,5000,10000,20000,50000,80000,100000,150000,180000,200000,250000,300000,350000,500000,1000000''
                   classifierParameters ''trigger'' w) (\<lambda>cp1.
        then_do (if task = ''CO11'' then cat_into ''0.8,0.9,0.95,1.0'' cp1 ''recall'' w
                 else cat_into ''0.5,0.6,0.65,0.7,0.85,1.0,1.1,1.2'' cp1 ''recall'' w) (\<lambda>cp2.
        then_do (if task \<in> set [''REL11'', ''CO11'']
                 then cat_into ''c=10,100,1000,5000,7500,10000,20000,25000,28000,50000,60000,65000,100000,500000,1000000''
                        cp2 ''edge'' w
                 else cat_into ''c=5000,7500,10000,20000,25000,27500,28000,29000,30000,35000,40000,50000,60000,65000''
                        cp2 ''edge'' w) (\<lambda>cp3.
        then_do (cat_into ''c=1,10,100,500,1000,1500,2500,5000,10000,20000,50000,80000,100000''
                   cp3 ''unmerging'' w) (\<lambda>cp4.
        cat_into ''c=5000,10000,20000,50000,100000'' cp4 ''modifiers'' w)))))"

text \<open>
  The last statement of getTaskSettings, outside the branch on the task:
  \<^verbatim>\<open>"names" in style\<close> on the style of the stage the detector starts with.
\<close>

definition removeNames :: "bool \<Rightarrow> params \<Rightarrow> world \<Rightarrow> (pyerror \<times> world) + bool" where
  "removeNames isSingleStage exampleStyles w =
     (if isSingleStage then
        then_do (getitem exampleStyles ''examples'' w) (\<lambda>v.
          Inr (case v of None \<Rightarrow> False | Some style \<Rightarrow> py_in ''names'' style))
      else
        then_do (getitem exampleStyles ''trigger'' w) (\<lambda>v.
          Inr (case v of None \<Rightarrow> False | Some style \<Rightarrow> py_in ''names'' style)))"

text \<open>
  \<^verbatim>\<open>getTaskSettings(task, detector, processUnmerging, processModifiers, isSingleStage,
  bioNLPSTParams, preprocessorParams, inputFiles, exampleStyles, classifierParameters)\<close>.
  The dictionaries are changed in place and returned; the messages it prints are not part
  of the model.
\<close>

definition getTaskSettings ::
  "string \<Rightarrow> string option \<Rightarrow> detectorref option \<Rightarrow> bool option \<Rightarrow> bool option \<Rightarrow> bool
     \<Rightarrow> string option \<Rightarrow> string option \<Rightarrow> inputfiles \<Rightarrow> params \<Rightarrow> params \<Rightarrow> world
     \<Rightarrow> tasksettings result" where
  "getTaskSettings dataPath task detector processUnmerging processModifiers isSingleStage
     bioNLPSTParams preprocessorParams inputFiles exampleStyles classifierParameters w =
     then_do
       (case task of
          None \<Rightarrow>
            Inr (\<lparr>ts_detector = detector, ts_processUnmerging = processUnmerging,
                  ts_processModifiers = processModifiers, ts_isSingleStage = isSingleStage,
                  ts_bioNLPSTParams = bioNLPSTParams, ts_preprocessorParams = preprocessorParams,
                  ts_inputFiles = inputFiles, ts_exampleStyles = exampleStyles,
                  ts_classifierParameters = classifierParameters,
                  ts_removeNamesFromEmpty = False\<rparr>, w)
        | Some fullTaskId \<Rightarrow>
            if py_replace ''-MINI'' [] fullTaskId \<in> set recognizedTasks then
              then_do (split_task fullTaskId w) (\<lambda>(task1, subTask).
              then_do (default_inputFiles dataPath task1 inputFiles w) (\<lambda>(inputFiles1, w1).
              case default_detector (py_replace ''-MINI'' [] task1) detector isSingleStage of
                (detector1, isSingleStage1) \<Rightarrow>
              then_do (default_exampleStyles (py_replace ''-MINI'' [] task1) subTask isSingleStage1
                         exampleStyles w1) (\<lambda>(exampleStyles1, w2).
              then_do (default_classifierParameters (py_replace ''-MINI'' [] task1) isSingleStage1
                         classifierParameters w2) (\<lambda>classifierParameters1.
              Inr (\<lparr>ts_detector = detector1,
                    ts_processUnmerging =
                      default_processUnmerging (py_replace ''-MINI'' [] task1) isSingleStage1 processUnmerging,
                    ts_processModifiers =
                      default_processModifiers (py_replace ''-MINI'' [] task1) processModifiers,
                    ts_isSingleStage = isSingleStage1,
                    ts_bioNLPSTParams =
                      default_bioNLPSTParams (py_replace ''-MINI'' [] task1) bioNLPSTParams,
                    ts_preprocessorParams =
                      default_preprocessorParams (py_replace ''-MINI'' [] task1) preprocessorParams,
                    ts_inputFiles = inputFiles1, ts_exampleStyles = exampleStyles1,
                    ts_classifierParameters = classifierParameters1,
                    ts_removeNamesFromEmpty = False\<rparr>, w2)))))
            else Inl (AssertionError, w))
       (\<lambda>(s, w3).
          then_do (removeNames (ts_isSingleStage s) (ts_exampleStyles s) w3) (\<lambda>b.
          Inr (s\<lparr>ts_removeNamesFromEmpty := b\<rparr>, w3)))"

text \<open>The dictionaries train builds when the caller gives nothing.\<close>

definition no_files :: inputfiles where
  "no_files = [''train'' \<mapsto> None, ''devel'' \<mapsto> None, ''test'' \<mapsto> None]"

definition no_styles :: params where
  "no_styles = [''examples'' \<mapsto> None, ''trigger'' \<mapsto> None, ''edge'' \<mapsto> None,
                ''unmerging'' \<mapsto> None, ''modifiers'' \<mapsto> None]"

definition no_params :: params where
  "no_params = [''examples'' \<mapsto> None, ''trigger'' \<mapsto> None, ''recall'' \<mapsto> None,
                ''edge'' \<mapsto> None, ''unmerging'' \<mapsto> None, ''modifiers'' \<mapsto> None]"

text \<open>
  The name by which getTaskSettings chooses its defaults: its variable \<^verbatim>\<open>task\<close> after
  the sub-task number was split off and \<^verbatim>\<open>-MINI\<close> removed.
\<close>

definition normal_task :: "string \<Rightarrow> string" where
  "normal_task t = py_replace ''-MINI'' [] (hd (py_split (CHR ''.'') t))"

text \<open>The world of a run from the command line: the global \<^verbatim>\<open>options\<close> exists.\<close>

definition script_world :: world where
  "script_world =
     \<lparr>fs = Map.empty, cwd = ''/home'', atexit = [], logfile = None, stderr = [],
      tmpnames = [],
      globals_options = Some \<lparr>opt_copyFrom = None, opt_triggerExampleBuilder = None\<rparr>\<rparr>"

text \<open>
  A dictionary of parameter slots keeps the overrides of another when every slot that
  held a non-empty string there still holds it.
\<close>

definition keeps_overrides :: "params \<Rightarrow> params \<Rightarrow> bool" where
  "keeps_overrides d d' = (\<forall>j v. d j = Some (Some v) \<and> v \<noteq> [] \<longrightarrow> d' j = Some (Some v))"

text \<open>Example styles of a caller: a trigger style and an edge style of their own.\<close>

definition styles_mine :: params where
  "styles_mine = [''examples'' \<mapsto> None, ''trigger'' \<mapsto> Some ''mystyle'', ''edge'' \<mapsto> Some ''myedge'',
                  ''unmerging'' \<mapsto> None, ''modifiers'' \<mapsto> None]"

definition styles_surnames :: params where
  "styles_surnames = [''examples'' \<mapsto> None, ''trigger'' \<mapsto> Some ''surnames'', ''edge'' \<mapsto> None,
                      ''unmerging'' \<mapsto> None, ''modifiers'' \<mapsto> None]"

section \<open>workdir\<close>

text \<open>
  \<^verbatim>\<open>def workdir(path, deleteIfExists=True, copyFrom=None, log="log.txt")\<close>.
  The template is copied from \<^verbatim>\<open>options.copyFrom\<close>, a read of the module global, not
  from the parameter \<^verbatim>\<open>copyFrom\<close>; the global is read first by the print statement
  that announces the copy.
\<close>

definition workdir :: "string \<Rightarrow> bool \<Rightarrow> string option \<Rightarrow> string option \<Rightarrow> world \<Rightarrow> string result" where
  "workdir path deleteIfExists0 copyFrom log w0 =
     (let deleteIfExists = (if copyFrom \<noteq> None then True else deleteIfExists0) in
      then_do
        (if os_path_exists w0 path \<and> deleteIfExists
         then shutil_rmtree path (py_print [''Output directory exists, removing'', path] w0)
         else Inr w0)
        (\<lambda>w1.
      then_do
        (if \<not> os_path_exists w1 path then
           (if copyFrom = None
            then os_makedirs path (py_print [''Making output directory'', path] w1)
            else (case globals_options w1 of
                    None \<Rightarrow> Inl (NameError, w1)
                  | Some opts \<Rightarrow>
                      shutil_copytree (opt_copyFrom opts) path
                        (py_print [''Copying template from'', py_str (opt_copyFrom opts), ''to'', path] w1)))
         else Inr (py_print [''Using existing output directory'', path] w1))
        (\<lambda>w2.
      then_do (os_chdir path (w2\<lparr>atexit := atexit w2 @ [cwd w2]\<rparr>))
        (\<lambda>w3.
      Inr (path, (case log of
                    Some l \<Rightarrow> openLog l w3
                  | None \<Rightarrow> py_print [''No logging''] w3))))))"

definition imported_world :: world where
  "imported_world =
     \<lparr>fs = [''out'' \<mapsto> Dir [(''model-devel'', File ''old'')],
             ''template'' \<mapsto> Dir [(''model-devel'', File ''new'')]],
      cwd = ''/home'', atexit = [], logfile = None, stderr = [], tmpnames = [],
      globals_options = None\<rparr>"

section \<open>train\<close>

text \<open>
  The detector, its connection, the model files and the corpus tools are collaborators
  outside this file. They are the fields of \<open>env\<close>; each takes the world and may raise.
  \<open>'f\<close> is the type of floats and \<open>'c\<close> the type of a corpus held in memory.
\<close>

datatype 'c classify_input = InputFile "string option" | InputCorpus 'c

text \<open>
  The calls of the detector. A single-stage training call carries the train and devel
  files, the two model names, the example style, the classifier parameters, the parse,
  the task and the substep to start from; a multi-stage call carries the files and models,
  the four styles, the four parameter sets and the recall parameters in one list, then the
  two toggles, the full-grid flag, the task, the parse and the substep. A classification
  call carries its input, the model, the output stem, the gold data if given, the substep
  and the working directory.
\<close>

datatype 'c detector_call =
    TrainSingle "string option list" "stepval option"
  | TrainEvent "string option list" "bool option" "bool option" bool "string option"
      "string option" "stepval option"
  | Classify "'c classify_input" "string option" string "string option option"
      "stepval option" string

record ('f, 'c) env =
  env_dataPath :: string
  env_pyfloat :: "pyval \<Rightarrow> 'f option"
  env_getSubset :: "'f subsetter"
  env_modelDetector :: "string \<Rightarrow> world \<Rightarrow> (pyerror \<times> world) + string"
  env_import :: "string \<Rightarrow> string \<Rightarrow> world \<Rightarrow> (pyerror \<times> world) + (string \<times> world)"
  env_init :: "string \<Rightarrow> bool \<Rightarrow> string option \<Rightarrow> string option \<Rightarrow> bool \<Rightarrow> world
                 \<Rightarrow> (pyerror \<times> world) + (bool pydict \<times> world)"
  env_detector :: "'c detector_call \<Rightarrow> bool pydict \<Rightarrow> world \<Rightarrow> (pyerror \<times> world) + world"
  env_annotate :: "string \<Rightarrow> string \<Rightarrow> string option \<Rightarrow> world \<Rightarrow> (pyerror \<times> world) + world"
  env_getEmptyCorpus :: "string option \<Rightarrow> bool \<Rightarrow> world \<Rightarrow> (pyerror \<times> world) + ('c \<times> world)"
  env_compare :: "string \<Rightarrow> string \<Rightarrow> string \<Rightarrow> world \<Rightarrow> (pyerror \<times> world) + world"

text \<open>\<^verbatim>\<open>getDefinedBool\<close>: a boolean, None, or one of the strings "True" and "False".\<close>

datatype boolarg = BoolVal bool | BoolNone | BoolStr string

definition getDefinedBool :: "boolarg \<Rightarrow> world \<Rightarrow> (pyerror \<times> world) + bool option" where
  "getDefinedBool string w =
     (case string of
        BoolVal b \<Rightarrow> Inr (Some b)
      | BoolNone \<Rightarrow> Inr None
      | BoolStr s \<Rightarrow>
          if s = ''True'' then Inr (Some True)
          else if s = ''False'' then Inr (Some False)
          else Inl (AssertionError, w))"

text \<open>
  \<^verbatim>\<open>getDetector(detector, model=None)\<close>. The import of a detector given by name is the
  collaborator \<open>env_import\<close>, applied to the statement executed and the expression
  evaluated; it gives the class, by its name.
\<close>

definition getDetector ::
  "('f, 'c) env \<Rightarrow> detectorref option \<Rightarrow> string option \<Rightarrow> world \<Rightarrow> (string \<times> string) result" where
  "getDetector env detector model w =
     then_do
       (case detector of
          None \<Rightarrow>
            (case model of
               None \<Rightarrow> Inl (AssertionError, w)
             | Some m \<Rightarrow> then_do (env_modelDetector env m w) (\<lambda>name. Inr (DetectorName name)))
        | Some d \<Rightarrow> Inr d)
       (\<lambda>d.
          case d of
            DetectorName name \<Rightarrow>
              then_do
                (if take 4 name = ''from''
                 then env_import env name (last (py_split (CHR ''.'') name))
                        (py_print [''Importing detector'', name] w)
                 else env_import env
                        (''from '' @ name @ '' import '' @ last (py_split (CHR ''.'') name))
                        (last (py_split (CHR ''.'') name))
                        (py_print [''Importing detector'', name] w))
                (\<lambda>(cls, w1). Inr ((cls, name), w1))
          | DetectorClass cls \<Rightarrow> Inr ((cls, cls), py_print [''Using detector'', cls] w))"

definition banner :: "string \<Rightarrow> world \<Rightarrow> world" where
  "banner title w =
     py_print [''----------------------------------------------------'']
       (py_print [title]
          (py_print [''----------------------------------------------------''] w))"

fun getitems :: "'v pydict \<Rightarrow> string list \<Rightarrow> world \<Rightarrow> (pyerror \<times> world) + 'v list" where
  "getitems d [] w = Inr []"
| "getitems d (k # ks) w =
     then_do (getitem d k w) (\<lambda>v. then_do (getitems d ks w) (\<lambda>vs. Inr (v # vs)))"

text \<open>The state the phases share: the dictionary \<^verbatim>\<open>detector.bioNLPSTParams\<close> and the world.\<close>

type_synonym phase_state = "bool pydict \<times> world"

text \<open>The TRAIN phase, with the loop that writes the detector's name into the models.\<close>

fun annotate_models ::
  "('f, 'c) env \<Rightarrow> string option list \<Rightarrow> string \<Rightarrow> string option \<Rightarrow> world
     \<Rightarrow> (pyerror \<times> world) + world" where
  "annotate_models env [] detectorName preprocessorParams w = Inr w"
| "annotate_models env (model # rest) detectorName preprocessorParams w =
     (case model of
        None \<Rightarrow> annotate_models env rest detectorName preprocessorParams w
      | Some m \<Rightarrow>
          if os_path_exists w m
          then then_do (env_annotate env m detectorName preprocessorParams w)
                 (annotate_models env rest detectorName preprocessorParams)
          else annotate_models env rest detectorName preprocessorParams w)"

definition train_TRAIN ::
  "('f, 'c) env \<Rightarrow> stepselector \<Rightarrow> stepval option pydict \<Rightarrow> bool \<Rightarrow> inputfiles
     \<Rightarrow> string option pydict \<Rightarrow> params \<Rightarrow> params \<Rightarrow> bool option \<Rightarrow> bool option \<Rightarrow> bool
     \<Rightarrow> string option \<Rightarrow> string option \<Rightarrow> string option \<Rightarrow> string \<Rightarrow> phase_state
     \<Rightarrow> (pyerror \<times> world) + phase_state" where
  "train_TRAIN env selector detectorSteps isSingleStage inputFiles models exampleStyles
     classifierParams processUnmerging processModifiers doFullGrid task parse
     preprocessorParams detectorName st =
     (case st of (stparams, w0) \<Rightarrow>
      if shouldRun selector ''TRAIN'' then
        (let w = banner ''------------------ Train Detector ------------------'' w0 in
         then_do (getitems inputFiles [''train'', ''devel''] w) (\<lambda>files.
         then_do (getitems models [''devel'', ''test''] w) (\<lambda>ms.
         then_do
           (if isSingleStage then
              then_do (getitem exampleStyles ''examples'' w) (\<lambda>style.
              then_do (getitem classifierParams ''examples'' w) (\<lambda>cparams.
              then_do (getitem detectorSteps ''TRAIN'' w) (\<lambda>fromStep.
              env_detector env (TrainSingle (files @ ms @ [style, cparams, parse, None, task]) fromStep)
                stparams w)))
            else
              then_do (getitems exampleStyles [''trigger'', ''edge'', ''unmerging'', ''modifiers''] w)
                (\<lambda>styles.
              then_do (getitems classifierParams
                         [''trigger'', ''edge'', ''unmerging'', ''modifiers'', ''recall''] w) (\<lambda>cparams.
              then_do (getitem detectorSteps ''TRAIN'' w) (\<lambda>fromStep.
              env_detector env
                (TrainEvent (files @ ms @ styles @ cparams) processUnmerging processModifiers
                   doFullGrid task parse fromStep)
                stparams w))))
           (\<lambda>w1.
         then_do (getitems models [''devel'', ''test''] w1) (\<lambda>ms1.
         then_do (annotate_models env ms1 detectorName preprocessorParams w1) (\<lambda>w2.
         Inr (stparams, w2)))))))
      else Inr st)"

definition train_DEVEL ::
  "('f, 'c) env \<Rightarrow> stepselector \<Rightarrow> stepval option pydict \<Rightarrow> inputfiles \<Rightarrow> string option pydict
     \<Rightarrow> phase_state \<Rightarrow> (pyerror \<times> world) + phase_state" where
  "train_DEVEL env selector detectorSteps inputFiles models st =
     (case st of (stparams, w0) \<Rightarrow>
      if shouldRun selector ''DEVEL'' then
        (let w = banner ''------------ Check devel classification ------------'' w0 in
         then_do (getitem inputFiles ''devel'' w) (\<lambda>devel.
         then_do (getitem models ''devel'' w) (\<lambda>model.
         then_do (getitem inputFiles ''devel'' w) (\<lambda>gold.
         then_do (getitem detectorSteps ''DEVEL'' w) (\<lambda>fromStep.
         then_do (env_detector env
                    (Classify (InputFile devel) model ''classification-devel/devel'' (Some gold)
                       fromStep ''classification-devel'')
                    stparams w) (\<lambda>w1.
         Inr (stparams, w1)))))))
      else Inr st)"

text \<open>
  The EMPTY phase classifies \<^verbatim>\<open>getEmptyCorpus(inputFiles["devel"],
  removeNames=removeNamesFromEmpty)\<close>, with no gold data.
\<close>

definition train_EMPTY ::
  "('f, 'c) env \<Rightarrow> stepselector \<Rightarrow> stepval option pydict \<Rightarrow> inputfiles \<Rightarrow> string option pydict
     \<Rightarrow> bool \<Rightarrow> phase_state \<Rightarrow> (pyerror \<times> world) + phase_state" where
  "train_EMPTY env selector detectorSteps inputFiles models removeNamesFromEmpty st =
     (case st of (stparams, w0) \<Rightarrow>
      if shouldRun selector ''EMPTY'' then
        (let w = banner ''------------ Empty devel classification ------------'' w0 in
         then_do (getitem inputFiles ''devel'' w) (\<lambda>devel.
         then_do (env_getEmptyCorpus env devel removeNamesFromEmpty w) (\<lambda>(corpus, w1).
         then_do (getitem models ''devel'' w1) (\<lambda>model.
         then_do (getitem detectorSteps ''EMPTY'' w1) (\<lambda>fromStep.
         then_do (env_detector env
                    (Classify (InputCorpus corpus) model ''classification-empty/devel-empty'' None
                       fromStep ''classification-empty'')
                    stparams w1) (\<lambda>w2.
         Inr (stparams, w2)))))))
      else Inr st)"

text \<open>
  The TEST phase. Without a test file, or with one that does not exist, it prints that it
  skips; otherwise it turns the score files off, classifies, and compares the archives
  when the conversion is on.
\<close>

definition train_TEST ::
  "('f, 'c) env \<Rightarrow> stepselector \<Rightarrow> stepval option pydict \<Rightarrow> inputfiles \<Rightarrow> string option pydict
     \<Rightarrow> phase_state \<Rightarrow> (pyerror \<times> world) + phase_state" where
  "train_TEST env selector detectorSteps inputFiles models st =
     (case st of (stparams, w0) \<Rightarrow>
      if shouldRun selector ''TEST'' then
        (let w = banner ''------------- Test set classification --------------'' w0 in
         then_do (getitem inputFiles ''test'' w) (\<lambda>test.
         if (case test of None \<Rightarrow> True | Some path \<Rightarrow> \<not> os_path_exists w path) then
           Inr (stparams, py_print [''Skipping, test file'', py_str test, ''does not exist''] w)
         else
           (let stparams1 = stparams(''scores'' \<mapsto> False) in
            then_do (getitem models ''test'' w) (\<lambda>model.
            then_do (getitem detectorSteps ''TEST'' w) (\<lambda>fromStep.
            then_do (env_detector env
                       (Classify (InputFile test) model ''classification-test/test'' None
                          fromStep ''classification-test'')
                       stparams1 w) (\<lambda>w1.
            then_do (getitem stparams1 ''convert'' w1) (\<lambda>convert.
            if convert then
              then_do (env_compare env ''classification-test/test-events.tar.gz''
                         ''classification-devel/devel-events.tar.gz'' ''a2'' w1) (\<lambda>w2.
              Inr (stparams1, w2))
            else Inr (stparams1, w1))))))))
      else Inr st)"

definition train_phases ::
  "('f, 'c) env \<Rightarrow> stepselector \<Rightarrow> stepval option pydict \<Rightarrow> bool \<Rightarrow> inputfiles
     \<Rightarrow> string option pydict \<Rightarrow> params \<Rightarrow> params \<Rightarrow> bool option \<Rightarrow> bool option \<Rightarrow> bool
     \<Rightarrow> string option \<Rightarrow> string option \<Rightarrow> string option \<Rightarrow> string \<Rightarrow> bool \<Rightarrow> phase_state
     \<Rightarrow> (pyerror \<times> world) + phase_state" where
  "train_phases env selector detectorSteps isSingleStage inputFiles models exampleStyles
     classifierParams processUnmerging processModifiers doFullGrid task parse
     preprocessorParams detectorName removeNamesFromEmpty st =
     then_do (train_TRAIN env selector detectorSteps isSingleStage inputFiles models exampleStyles
                classifierParams processUnmerging processModifiers doFullGrid task parse
                preprocessorParams detectorName st) (\<lambda>st1.
     then_do (train_DEVEL env selector detectorSteps inputFiles models st1) (\<lambda>st2.
     then_do (train_EMPTY env selector detectorSteps inputFiles models removeNamesFromEmpty st2)
       (\<lambda>st3.
     train_TEST env selector detectorSteps inputFiles models st3)))"

text \<open>
  The arguments of \<^verbatim>\<open>train\<close>. The dictionaries are those \<^verbatim>\<open>Parameters.get\<close> returns for
  the caller's values at the start of the function.
\<close>

record train_args =
  arg_output :: string
  arg_task :: "string option"
  arg_detector :: "detectorref option"
  arg_inputFiles :: inputfiles
  arg_models :: "string option pydict"
  arg_parse :: "string option"
  arg_processUnmerging :: boolarg
  arg_processModifiers :: boolarg
  arg_isSingleStage :: bool
  arg_bioNLPSTParams :: "string option"
  arg_preprocessorParams :: "string option"
  arg_exampleStyles :: params
  arg_classifierParams :: params
  arg_doFullGrid :: bool
  arg_deleteOutput :: bool
  arg_copyFrom :: "string option"
  arg_log :: "string option"
  arg_step :: "(string \<times> stepval option) list"
  arg_omitSteps :: "(string \<times> stepval option) list"
  arg_debug :: bool
  arg_connection :: "string option"
  arg_subset :: "pyval option pydict"
  arg_folds :: "foldval option pydict"

text \<open>
  \<^verbatim>\<open>train\<close>: the working directory, the task settings, folds and subsets, the step
  plan, the detector (lines 76 to 86 are calls into the detector and its connection, the
  collaborator \<open>env_init\<close>, which gives \<^verbatim>\<open>detector.bioNLPSTParams\<close>), then the phases.
\<close>

definition train :: "('f, 'c) env \<Rightarrow> train_args \<Rightarrow> world \<Rightarrow> unit result" where
  "train env a w =
     then_do (getDefinedBool (arg_processUnmerging a) w) (\<lambda>processUnmerging.
     then_do (getDefinedBool (arg_processModifiers a) w) (\<lambda>processModifiers.
     then_do (workdir (arg_output a) (arg_deleteOutput a) (arg_copyFrom a) (arg_log a) w)
       (\<lambda>(path, w1).
     then_do (getTaskSettings (env_dataPath env) (arg_task a) (arg_detector a) processUnmerging
                processModifiers (arg_isSingleStage a) (arg_bioNLPSTParams a)
                (arg_preprocessorParams a) (arg_inputFiles a) (arg_exampleStyles a)
                (arg_classifierParams a) w1) (\<lambda>(r, w2).
     then_do (getFolds (env_getSubset env) (ts_inputFiles r) (arg_folds a) (Some ''training'') w2)
       (\<lambda>(inputFiles1, w3).
     then_do (getSubsets (env_pyfloat env) (env_getSubset env) inputFiles1 (arg_subset a)
                (Some ''training'') w3) (\<lambda>(inputFiles2, w4).
     then_do (getSteps (arg_step a) (arg_omitSteps a) [''TRAIN'', ''DEVEL'', ''EMPTY'', ''TEST''] w4)
       (\<lambda>((selector, detectorSteps, omitDetectorSteps), w5).
     then_do (getDetector env (ts_detector r) None w5) (\<lambda>((cls, detectorName), w6).
     then_do (env_init env cls (arg_debug a) (ts_bioNLPSTParams r) (arg_connection a)
                (arg_deleteOutput a) w6) (\<lambda>(stparams, w7).
     then_do (train_phases env selector detectorSteps (ts_isSingleStage r) inputFiles2
                (arg_models a) (ts_exampleStyles r) (ts_classifierParameters r)
                (ts_processUnmerging r) (ts_processModifiers r) (arg_doFullGrid a)
                (map_option (\<lambda>t. py_replace ''-FULL'' [] (py_replace ''-MINI'' [] t)) (arg_task a))
                (arg_parse a) (ts_preprocessorParams r) detectorName (ts_removeNamesFromEmpty r)
                (stparams, w7)) (\<lambda>(stparams1, w8).
     Inr ((), w8)))))))))))"

text \<open>
  Stand-ins for the collaborators, for running train on concrete inputs: the detector
  writes each call it gets into a file named after the call, and the emptied corpus
  is the pair of its source and the names flag.
\<close>

definition call_name :: "(string option \<times> bool) detector_call \<Rightarrow> string" where
  "call_name c =
     (case c of
        TrainSingle xs fromStep \<Rightarrow> ''train''
      | TrainEvent xs pu pm grid task parse fromStep \<Rightarrow> ''train''
      | Classify inp model out gold fromStep workDir \<Rightarrow> out)"

definition call_text :: "(string option \<times> bool) detector_call \<Rightarrow> string" where
  "call_text c =
     (case c of
        TrainSingle xs fromStep \<Rightarrow> join '','' (map py_str xs)
      | TrainEvent xs pu pm grid task parse fromStep \<Rightarrow> join '','' (map py_str xs)
      | Classify inp model out gold fromStep workDir \<Rightarrow>
          (case inp of
             InputFile f \<Rightarrow> ''file '' @ py_str f
           | InputCorpus (src, names) \<Rightarrow>
               ''emptied '' @ py_str src @ (if names then '' without names'' else '' with names'')))"

definition test_env :: "(string, string option \<times> bool) env" where
  "test_env =
     \<lparr>env_dataPath = ''corpora'',
      env_pyfloat = float_text,
      env_getSubset = write_subset,
      env_modelDetector = (\<lambda>m w. Inr ''Detectors.EventDetector''),
      env_import = (\<lambda>stmt expr w. Inr (expr, w)),
      env_init = (\<lambda>cls debug stparams connection deleteOutput w.
                    Inr ([''convert'' \<mapsto> True, ''scores'' \<mapsto> True], w)),
      env_detector = (\<lambda>c stparams w. Inr (w\<lparr>fs := (fs w)(call_name c \<mapsto> File (call_text c))\<rparr>)),
      env_annotate = (\<lambda>m name pre w. Inr w),
      env_getEmptyCorpus = (\<lambda>src names w. Inr ((src, names), w)),
      env_compare = (\<lambda>a b tag w. Inr w)\<rparr>"



section \<open>Properties of workdir\<close>

lemma workdir_template_replaces:
  assumes "globals_options w = Some opts" and "opt_copyFrom opts = Some t"
    and "copyFrom = Some t" and "fs w path = Some (Dir old)" and "fs w t = Some (Dir new)"
    and "t \<noteq> path"
  shows "\<exists>w'. workdir path deleteIfExists copyFrom log w = Inr (path, w')
           \<and> fs w' path = Some (Dir new)"
  using assms
  by (cases log)
     (simp_all add: workdir_def then_do_def os_path_exists_def shutil_rmtree_def py_print_def
        shutil_copytree_def os_chdir_def openLog_def)

text \<open>
  C10. With a template given and the output directory present, the directory is removed
  although the delete flag is false; when the module was imported (no global
  \<^verbatim>\<open>options\<close>) the call then stops with a NameError and nothing is copied.
\<close>

theorem workdir_template_imported:
  "workdir ''out'' False (Some ''template'') (Some ''log.txt'') imported_world
     = Inl (NameError,
            imported_world\<lparr>fs := [''template'' \<mapsto> Dir [(''model-devel'', File ''new'')]],
                            stderr := [''Output directory exists, removing out'']\<rparr>)"
  by (simp add: workdir_def then_do_def os_path_exists_def shutil_rmtree_def py_print_def
        imported_world_def fun_upd_twist)

section \<open>Properties of getSubsets\<close>

text \<open>
  C8. For a dataset with an input file and a fraction (its own, else the shared one),
  one round of getSubsets names the output \<^verbatim>\<open>subset_<fraction>_<seed>_<basename>\<close> in
  the output directory, stores that name in \<^verbatim>\<open>inputFiles\<close>, and calls the subset
  maker only when no file of that name exists. The request of half of
  \<^verbatim>\<open>data/corpus.xml\<close> with seed 0 gives \<^verbatim>\<open>training/subset_0.5_0_corpus.xml\<close>.
\<close>

theorem getSubsets_filename:
  assumes "inputFiles dataset = Some (Some path)" and "path \<noteq> ''None''"
    and "subsetd dataset = Some sd" and "subsetd ''all'' = Some sa"
    and "sd \<noteq> None \<or> sa \<noteq> None" and "subsetd ''seed'' = Some seed"
  shows "getSubsets_step pyfloat gs subsetd dataset (inputFiles, Some outdir, w) =
     (let fraction = (if sd \<noteq> None then sd else sa);
          out = os_path_join outdir
                  (''subset_'' @ str_val fraction @ ''_'' @ str_val seed @ ''_'' @ os_path_basename path)
      in if os_path_exists w out then Inr (inputFiles(dataset \<mapsto> Some out), Some outdir, w)
         else then_do
                (case fraction of
                   None \<Rightarrow> Inl (TypeError, w)
                 | Some fr \<Rightarrow>
                     (case pyfloat fr of
                        None \<Rightarrow> Inl (ValueError, w)
                      | Some x \<Rightarrow> gs (SubsetFraction path out x seed) w))
                (\<lambda>w2. Inr (inputFiles(dataset \<mapsto> Some out), Some outdir, w2)))
   \<and> getSubsets float_text write_subset files0 subset0 (Some ''training'') empty_world
       = Inr (files0(''train'' \<mapsto> Some ''training/subset_0.5_0_corpus.xml''),
              empty_world\<lparr>fs := [''training/subset_0.5_0_corpus.xml''
                                     \<mapsto> File ''data/corpus.xml fraction 0.5 seed 0'']\<rparr>)"
proof
  show "getSubsets_step pyfloat gs subsetd dataset (inputFiles, Some outdir, w) =
     (let fraction = (if sd \<noteq> None then sd else sa);
          out = os_path_join outdir
                  (''subset_'' @ str_val fraction @ ''_'' @ str_val seed @ ''_'' @ os_path_basename path)
      in if os_path_exists w out then Inr (inputFiles(dataset \<mapsto> Some out), Some outdir, w)
         else then_do
                (case fraction of
                   None \<Rightarrow> Inl (TypeError, w)
                 | Some fr \<Rightarrow>
                     (case pyfloat fr of
                        None \<Rightarrow> Inl (ValueError, w)
                      | Some x \<Rightarrow> gs (SubsetFraction path out x seed) w))
                (\<lambda>w2. Inr (inputFiles(dataset \<mapsto> Some out), Some outdir, w2)))"
    using assms by (auto simp add: getSubsets_step_def then_do_def getitem_def Let_def)
next
  show "getSubsets float_text write_subset files0 subset0 (Some ''training'') empty_world
       = Inr (files0(''train'' \<mapsto> Some ''training/subset_0.5_0_corpus.xml''),
              empty_world\<lparr>fs := [''training/subset_0.5_0_corpus.xml''
                                     \<mapsto> File ''data/corpus.xml fraction 0.5 seed 0'']\<rparr>)"
    by (simp add: getSubsets_def getSubsets_step_def then_do_def getitem_def files0_def
        subset0_def os_path_join_def os_path_basename_def str_val_def string_of_nat.simps
        os_path_exists_def empty_world_def float_text_def write_subset_def Let_def)
qed

theorem getSubsets_filename_witness:
  "files0 ''train'' = Some (Some ''data/corpus.xml'')
   \<and> subset0 ''train'' = Some (Some (PyStr ''0.5''))
   \<and> subset0 ''seed'' = Some (Some (PyInt 0))
   \<and> getSubsets_step float_text write_subset subset0 ''train'' (files0, Some ''training'', empty_world)
       = Inr (files0(''train'' \<mapsto> Some ''training/subset_0.5_0_corpus.xml''), Some ''training'',
              empty_world\<lparr>fs := [''training/subset_0.5_0_corpus.xml''
                                     \<mapsto> File ''data/corpus.xml fraction 0.5 seed 0'']\<rparr>)"
proof -
  have h1: "files0 ''train'' = Some (Some ''data/corpus.xml'')" by (simp add: files0_def)
  have h2: "''data/corpus.xml'' \<noteq> ''None''" by simp
  have h3: "subset0 ''train'' = Some (Some (PyStr ''0.5''))" by (simp add: subset0_def)
  have h4: "subset0 ''all'' = Some None" by (simp add: subset0_def)
  have h5: "Some (PyStr ''0.5'') \<noteq> None \<or> (None :: pyval option) \<noteq> None" by simp
  have h6: "subset0 ''seed'' = Some (Some (PyInt 0))" by (simp add: subset0_def)
  note step = getSubsets_filename [where inputFiles = files0 and dataset = "''train''"
      and path = "''data/corpus.xml''" and subsetd = subset0 and sd = "Some (PyStr ''0.5'')"
      and sa = None and seed = "Some (PyInt 0)" and pyfloat = float_text and gs = write_subset
      and outdir = "''training''" and w = empty_world, OF h1 h2 h3 h4 h5 h6, THEN conjunct1]
  have "getSubsets_step float_text write_subset subset0 ''train'' (files0, Some ''training'', empty_world)
       = Inr (files0(''train'' \<mapsto> Some ''training/subset_0.5_0_corpus.xml''), Some ''training'',
              empty_world\<lparr>fs := [''training/subset_0.5_0_corpus.xml''
                                     \<mapsto> File ''data/corpus.xml fraction 0.5 seed 0'']\<rparr>)"
    unfolding step
    by (simp add: then_do_def os_path_join_def os_path_basename_def str_val_def
        string_of_nat.simps os_path_exists_def empty_world_def float_text_def write_subset_def
        Let_def)
  with h1 h3 h6 show ?thesis by simp
qed

section \<open>Properties of getFolds\<close>

text \<open>
  C5. With fold lists given for train and devel, getFolds stops at its assertions, the
  world untouched, as soon as the devel or the test input is a path (neither None nor
  the string "None"); with both inputs unset the assertions hold and the result is that
  of the loop over the datasets.
\<close>

theorem getFolds_precondition:
  assumes "folds ''train'' = Some (Some ft)" and "folds ''devel'' = Some (Some fd)"
    and "inputFiles ''devel'' = Some dv" and "inputFiles ''test'' = Some tv"
  shows "((\<exists>p. dv = Some p \<and> p \<noteq> ''None'') \<or> (\<exists>p. tv = Some p \<and> p \<noteq> ''None'')
           \<longrightarrow> getFolds gs inputFiles folds outdir w = Inl (AssertionError, w))
       \<and> (dv = None \<and> tv = None
           \<longrightarrow> getFolds gs inputFiles folds outdir w =
               then_do (getFolds_loop gs [''devel'', ''train'', ''test'']
                          (inputFiles, FoldsDict folds, outdir, w))
                 (\<lambda>(inputFiles1, folds1, outdir1, w1). Inr (inputFiles1, w1)))"
  using assms
  by (auto simp add: getFolds_def then_do_def getitem_def)

theorem getFolds_precondition_witness:
  "getFolds write_subset (files0(''devel'' \<mapsto> Some ''devel.xml'')) folds_ba (Some ''training'') empty_world
     = Inl (AssertionError, empty_world)
   \<and> getFolds write_subset (files0(''test'' \<mapsto> Some ''test.xml'')) folds_ba (Some ''training'') empty_world
     = Inl (AssertionError, empty_world)
   \<and> getFolds write_subset files0 folds_ba (Some ''training'') empty_world
     = then_do (getFolds_loop write_subset [''devel'', ''train'', ''test'']
                  (files0, FoldsDict folds_ba, Some ''training'', empty_world))
         (\<lambda>(inputFiles1, folds1, outdir1, w1). Inr (inputFiles1, w1))"
proof -
  have f1: "folds_ba ''train'' = Some (Some (FoldList [''train'']))" by (simp add: folds_ba_def)
  have f2: "folds_ba ''devel'' = Some (Some (FoldList [''b'', ''a'']))" by (simp add: folds_ba_def)
  have d0: "files0 ''devel'' = Some None" by (simp add: files0_def)
  have t0: "files0 ''test'' = Some None" by (simp add: files0_def)
  have d1: "(files0(''devel'' \<mapsto> Some ''devel.xml'')) ''devel'' = Some (Some ''devel.xml'')" by simp
  have t1: "(files0(''devel'' \<mapsto> Some ''devel.xml'')) ''test'' = Some None" by (simp add: files0_def)
  have d2: "(files0(''test'' \<mapsto> Some ''test.xml'')) ''devel'' = Some None" by (simp add: files0_def)
  have t2: "(files0(''test'' \<mapsto> Some ''test.xml'')) ''test'' = Some (Some ''test.xml'')" by simp
  note p1 = getFolds_precondition [where folds = folds_ba
      and inputFiles = "files0(''devel'' \<mapsto> Some ''devel.xml'')" and dv = "Some ''devel.xml''"
      and tv = None and gs = write_subset and outdir = "Some ''training''" and w = empty_world,
      OF f1 f2 d1 t1]
  have a: "getFolds write_subset (files0(''devel'' \<mapsto> Some ''devel.xml'')) folds_ba (Some ''training'') empty_world
     = Inl (AssertionError, empty_world)"
    by (rule p1 [THEN conjunct1, THEN mp]) simp
  note p2 = getFolds_precondition [where folds = folds_ba
      and inputFiles = "files0(''test'' \<mapsto> Some ''test.xml'')" and dv = None
      and tv = "Some ''test.xml''" and gs = write_subset and outdir = "Some ''training''"
      and w = empty_world, OF f1 f2 d2 t2]
  have b: "getFolds write_subset (files0(''test'' \<mapsto> Some ''test.xml'')) folds_ba (Some ''training'') empty_world
     = Inl (AssertionError, empty_world)"
    by (rule p2 [THEN conjunct1, THEN mp]) simp
  note p3 = getFolds_precondition [where folds = folds_ba and inputFiles = files0 and dv = None
      and tv = None and gs = write_subset and outdir = "Some ''training''" and w = empty_world,
      OF f1 f2 d0 t0]
  have c: "getFolds write_subset files0 folds_ba (Some ''training'') empty_world
     = then_do (getFolds_loop write_subset [''devel'', ''train'', ''test'']
                  (files0, FoldsDict folds_ba, Some ''training'', empty_world))
         (\<lambda>(inputFiles1, folds1, outdir1, w1). Inr (inputFiles1, w1))"
    by (rule p3 [THEN conjunct2, THEN mp]) simp
  from a b c show ?thesis by (intro conjI)
qed

lemma then_do_Inr: "then_do m f = Inr y \<Longrightarrow> \<exists>x. m = Inr x \<and> f x = Inr y"
  by (cases m) (simp_all add: then_do_def)

lemma getFolds_step_value:
  "getFolds_step gs dataset (inputFiles, FoldsValue v, outdir, w) = Inl (TypeError, w)"
  by (simp add: getFolds_step_def folds_getitem_def then_do_def)

lemma getFolds_step_shadows:
  assumes "getFolds_step gs dataset st = Inr st'"
  shows "\<exists>inputFiles v outdir w. st' = (inputFiles, FoldsValue v, outdir, w)"
proof -
  obtain i0 f0 o0 w0 where st: "st = (i0, f0, o0, w0)" by (cases st)
  from assms show ?thesis
    unfolding st getFolds_step_def Let_def
    by (auto dest!: then_do_Inr split: option.splits if_splits)
qed

lemma getFolds_loop_second_round:
  "getFolds_loop gs (d1 # d2 # ds) st \<noteq> Inr r"
proof
  assume "getFolds_loop gs (d1 # d2 # ds) st = Inr r"
  then obtain st1 where 1: "getFolds_step gs d1 st = Inr st1"
    and 2: "getFolds_loop gs (d2 # ds) st1 = Inr r"
    by (auto dest: then_do_Inr)
  from getFolds_step_shadows [OF 1] obtain i v od w where "st1 = (i, FoldsValue v, od, w)"
    by blast
  with 2 show False
    by (simp add: getFolds_step_value then_do_def)
qed

text \<open>
  C4. In fold mode the loop over the datasets does not get past its second round: the
  first round, for devel, assigns the devel labels to the variable \<^verbatim>\<open>folds\<close> that held
  the dictionary, and the second round indexes that value by "train". So getFolds never
  returns when fold lists are given for train and devel. With the devel and test inputs
  unset it makes the devel output at most, named after the devel labels joined by
  underscores in the order given with "train" replaced by "t", and raises TypeError:
  train and test get no output.
\<close>

theorem getFolds_fold_mode:
  assumes "folds ''train'' = Some (Some ft)" and "folds ''devel'' = Some (Some fd)"
  shows "(\<forall>r. getFolds gs inputFiles folds outdir w \<noteq> Inr r)
       \<and> (inputFiles ''devel'' = Some dv \<and> (dv = None \<or> dv = Some ''None'')
            \<and> inputFiles ''test'' = Some tv \<and> (tv = None \<or> tv = Some ''None'')
            \<and> inputFiles ''train'' = Some src
          \<longrightarrow> getFolds gs inputFiles folds (Some dir) w =
              (let out = os_path_join dir
                           (''devel-'' @ py_replace ''train'' ''t'' (join ''_'' (fold_labels fd))
                              @ ''.xml'')
               in if os_path_exists w out then Inl (TypeError, w)
                  else then_do (gs (SubsetAttributes src out (fold_labels fd)) w)
                         (\<lambda>w2. Inl (TypeError, w2))))"
proof (intro conjI allI impI)
  fix r
  show "getFolds gs inputFiles folds outdir w \<noteq> Inr r"
  proof
    assume "getFolds gs inputFiles folds outdir w = Inr r"
    with assms have "\<exists>r'. getFolds_loop gs [''devel'', ''train'', ''test'']
                        (inputFiles, FoldsDict folds, outdir, w) = Inr r'"
      by (auto simp: getFolds_def getitem_def then_do_def simp del: getFolds_loop.simps
            split: option.splits if_splits sum.splits)
    then show False using getFolds_loop_second_round by blast
  qed
next
  assume a: "inputFiles ''devel'' = Some dv \<and> (dv = None \<or> dv = Some ''None'')
            \<and> inputFiles ''test'' = Some tv \<and> (tv = None \<or> tv = Some ''None'')
            \<and> inputFiles ''train'' = Some src"
  then have asserts: "getFolds gs inputFiles folds (Some dir) w =
      then_do (getFolds_loop gs [''devel'', ''train'', ''test'']
                 (inputFiles, FoldsDict folds, Some dir, w))
        (\<lambda>(inputFiles1, folds1, outdir1, w1). Inr (inputFiles1, w1))"
    using assms by (auto simp: getFolds_def getitem_def then_do_def)
  have round: "getFolds_step gs ''devel'' (inputFiles, FoldsDict folds, Some dir, w) =
      (let out = os_path_join dir
                   (''devel-'' @ py_replace ''train'' ''t'' (join ''_'' (fold_labels fd)) @ ''.xml'')
       in then_do (if os_path_exists w out then Inr w
                   else gs (SubsetAttributes src out (fold_labels fd)) w)
            (\<lambda>w2. Inr (inputFiles(''devel'' \<mapsto> Some out), FoldsValue (Some (FoldList (fold_labels fd))),
                        Some dir, w2)))"
    using assms a
    by (simp add: getFolds_step_def folds_getitem_def getitem_def then_do_def Let_def)
  show "getFolds gs inputFiles folds (Some dir) w =
              (let out = os_path_join dir
                           (''devel-'' @ py_replace ''train'' ''t'' (join ''_'' (fold_labels fd))
                              @ ''.xml'')
               in if os_path_exists w out then Inl (TypeError, w)
                  else then_do (gs (SubsetAttributes src out (fold_labels fd)) w)
                         (\<lambda>w2. Inl (TypeError, w2)))"
    unfolding asserts getFolds_loop.simps round
    by (simp add: Let_def then_do_def getFolds_step_value split: sum.splits)
qed

theorem getFolds_fold_mode_witness:
  "getFolds write_subset files0 folds_ba (Some ''training'') empty_world
     = Inl (TypeError,
            empty_world\<lparr>fs := [''training/devel-b_a.xml'' \<mapsto> File ''data/corpus.xml set b,a'']\<rparr>)
   \<and> getFolds write_subset files0 folds_ab (Some ''training'') empty_world
     = Inl (TypeError,
            empty_world\<lparr>fs := [''training/devel-a_b.xml'' \<mapsto> File ''data/corpus.xml set a,b'']\<rparr>)
   \<and> (\<forall>r. getFolds write_subset files0 folds_ba (Some ''training'') empty_world \<noteq> Inr r)"
proof -
  have f: "files0 ''devel'' = Some None \<and> (None = None \<or> None = Some ''None'')
            \<and> files0 ''test'' = Some None \<and> (None = None \<or> None = Some ''None'')
            \<and> files0 ''train'' = Some (Some ''data/corpus.xml'')"
    by (simp add: files0_def)
  have t1: "folds_ba ''train'' = Some (Some (FoldList [''train'']))" by (simp add: folds_ba_def)
  have d1: "folds_ba ''devel'' = Some (Some (FoldList [''b'', ''a'']))" by (simp add: folds_ba_def)
  have t2: "folds_ab ''train'' = Some (Some (FoldList [''train'']))" by (simp add: folds_ab_def)
  have d2: "folds_ab ''devel'' = Some (Some (FoldList [''a'', ''b'']))" by (simp add: folds_ab_def)
  note ba = getFolds_fold_mode [where folds = folds_ba and inputFiles = files0 and dv = None
      and tv = None and src = "Some ''data/corpus.xml''" and gs = write_subset
      and dir = "''training''" and outdir = "Some ''training''" and w = empty_world, OF t1 d1]
  note ab = getFolds_fold_mode [where folds = folds_ab and inputFiles = files0 and dv = None
      and tv = None and src = "Some ''data/corpus.xml''" and gs = write_subset
      and dir = "''training''" and outdir = "Some ''training''" and w = empty_world, OF t2 d2]
  have a: "getFolds write_subset files0 folds_ba (Some ''training'') empty_world
     = Inl (TypeError,
            empty_world\<lparr>fs := [''training/devel-b_a.xml'' \<mapsto> File ''data/corpus.xml set b,a'']\<rparr>)"
    unfolding ba [THEN conjunct2, THEN mp, OF f]
    by (simp add: then_do_def os_path_join_def py_replace_def os_path_exists_def fold_labels_def
        empty_world_def write_subset_def py_str_def Let_def)
  have b: "getFolds write_subset files0 folds_ab (Some ''training'') empty_world
     = Inl (TypeError,
            empty_world\<lparr>fs := [''training/devel-a_b.xml'' \<mapsto> File ''data/corpus.xml set a,b'']\<rparr>)"
    unfolding ab [THEN conjunct2, THEN mp, OF f]
    by (simp add: then_do_def os_path_join_def py_replace_def os_path_exists_def fold_labels_def
        empty_world_def write_subset_def py_str_def Let_def)
  from a b ba [THEN conjunct1] show ?thesis by (intro conjI)
qed

section \<open>Properties of getSteps\<close>








section \<open>Properties of getTaskSettings\<close>

lemmas task_eval =
  getTaskSettings_def then_do_def recognizedTasks_def py_replace_def split_task_def
  default_inputFiles_def getitem_def no_files_def default_detector_def default_exampleStyles_def
  default_edgeStyle_def default_triggerStyle_def cat_into_def no_styles_def no_params_def
  default_classifierParameters_def removeNames_def default_bioNLPSTParams_def cat_def
  default_preprocessorParams_def default_processUnmerging_def default_processModifiers_def
  styles_mine_def styles_surnames_def empty_world_def script_world_def
  os_path_join_def Let_def

lemma py_split_no_sep: "c \<notin> set s \<Longrightarrow> py_split c s = [s]"
  by (induction s) auto

lemma split_task_hd:
  "split_task t w = Inr (task1, subTask) \<Longrightarrow> task1 = hd (py_split (CHR ''.'') t)"
  by (auto simp: split_task_def py_split_no_sep split: if_splits list.splits option.splits)

text \<open>What a successful call with a task returns, field by field.\<close>

lemma getTaskSettings_Inr:
  assumes "getTaskSettings dataPath (Some t) detector pu pm iss bio pre inputFiles es cp w = Inr (r, w')"
  shows "\<exists>subTask inputFiles1 w1 es1 cp1.
      default_exampleStyles (normal_task t) subTask (snd (default_detector (normal_task t) detector iss)) es w1
        = Inr (es1, w')
    \<and> default_classifierParameters (normal_task t) (snd (default_detector (normal_task t) detector iss)) cp w'
        = Inr cp1
    \<and> ts_detector r = fst (default_detector (normal_task t) detector iss)
    \<and> ts_isSingleStage r = snd (default_detector (normal_task t) detector iss)
    \<and> ts_processUnmerging r = default_processUnmerging (normal_task t) (ts_isSingleStage r) pu
    \<and> ts_processModifiers r = default_processModifiers (normal_task t) pm
    \<and> ts_bioNLPSTParams r = default_bioNLPSTParams (normal_task t) bio
    \<and> ts_preprocessorParams r = default_preprocessorParams (normal_task t) pre
    \<and> ts_exampleStyles r = es1 \<and> ts_classifierParameters r = cp1
    \<and> removeNames (ts_isSingleStage r) es1 w' = Inr (ts_removeNamesFromEmpty r)"
  using assms unfolding getTaskSettings_def then_do_def
  by (auto split: sum.splits prod.splits if_splits dest!: split_task_hd simp: normal_task_def) blast

lemma keeps_refl: "keeps_overrides d d"
  by (simp add: keeps_overrides_def)

lemma keeps_trans: "keeps_overrides a b \<Longrightarrow> keeps_overrides b c \<Longrightarrow> keeps_overrides a c"
  by (simp add: keeps_overrides_def)

lemma cat_into_keeps: "cat_into f d k w = Inr d' \<Longrightarrow> keeps_overrides d d'"
  by (auto simp: keeps_overrides_def cat_into_def getitem_def then_do_def cat_def split: option.splits)

lemma then_do_keeps:
  assumes "then_do m f = Inr c" and "\<And>b. m = Inr b \<Longrightarrow> keeps_overrides a b"
    and "\<And>b. f b = Inr c \<Longrightarrow> keeps_overrides b c"
  shows "keeps_overrides a c"
proof -
  from assms(1) obtain b where "m = Inr b" "f b = Inr c" by (auto dest: then_do_Inr)
  with assms(2,3) show ?thesis by (blast intro: keeps_trans)
qed

lemma edge_keeps:
  assumes "default_edgeStyle task subTask es w = Inr es'"
  shows "keeps_overrides es es'"
proof (cases "task \<in> set [''GE09'', ''GE11'']")
  case True
  with assms have "then_do (cat_into ''trigger_features:typed:directed:no_linear:entities:auto_limits:noMasking:maxFeatures''
                   es ''edge'' w) (\<lambda>es.
        if subTask = 1 then cat_into '':genia_task1'' es ''edge'' w else Inr es) = Inr es'"
    by (simp only: default_edgeStyle_def if_True)
  then show ?thesis
    by (rule then_do_keeps) (auto intro: cat_into_keeps keeps_refl split: if_splits)
next
  case False
  with assms obtain f where "cat_into f es ''edge'' w = Inr es'"
    by (simp only: default_edgeStyle_def if_False split: if_splits)
  then show ?thesis by (rule cat_into_keeps)
qed

lemma params_keep:
  assumes "default_classifierParameters task iss cp w = Inr cp'"
  shows "keeps_overrides cp cp'"
proof (cases iss)
  case True
  with assms have "cp' = cp \<or> (\<exists>f. cat_into f cp ''examples'' w = Inr cp')"
    by (simp only: default_classifierParameters_def if_True split: if_splits) blast+
  then show ?thesis by (auto intro: cat_into_keeps keeps_refl)
next
  case False
  with assms obtain f1 f2 f3 f4 f5 c1 c2 c3 c4 where
    "cat_into f1 cp ''trigger'' w = Inr c1" "cat_into f2 c1 ''recall'' w = Inr c2"
    "cat_into f3 c2 ''edge'' w = Inr c3" "cat_into f4 c3 ''unmerging'' w = Inr c4"
    "cat_into f5 c4 ''modifiers'' w = Inr cp'"
    apply (simp only: default_classifierParameters_def if_False)
    apply (drule then_do_Inr, elim exE conjE)+
    apply (simp split: if_splits)
    done
  then show ?thesis by (blast intro: cat_into_keeps keeps_trans)
qed

lemma trigger_keeps:
  assumes "default_triggerStyle task subTask es w = Inr (es', w')"
  shows "(task \<in> set [''BI11-FULL'', ''DDI11-FULL'']
            \<and> es' = es(''trigger'' \<mapsto> Some ''build_for_nameless:names''))
       \<or> keeps_overrides es es'"
proof -
  from assms have "es' = es \<or> (\<exists>f. cat_into f es ''trigger'' w = Inr es')
     \<or> (task \<in> set [''BI11-FULL'', ''DDI11-FULL'']
          \<and> es' = es(''trigger'' \<mapsto> Some ''build_for_nameless:names''))"
    unfolding default_triggerStyle_def
    by (auto split: if_splits option.splits dest!: then_do_Inr)
  then show ?thesis by (auto intro: cat_into_keeps keeps_refl)
qed

lemma styles_keep:
  assumes "default_exampleStyles task subTask iss es w = Inr (es', w')"
    and "es j = Some (Some v)" and "v \<noteq> []"
    and "\<not> (j = ''trigger'' \<and> \<not> iss \<and> task \<in> set [''BI11-FULL'', ''DDI11-FULL''])"
  shows "es' j = Some (Some v)"
proof (cases iss)
  case True
  with assms(1) have "es' = es \<or> (\<exists>f. cat_into f es ''examples'' w = Inr es')"
    unfolding default_exampleStyles_def
    by (auto split: if_splits dest!: then_do_Inr)
  then have "keeps_overrides es es'" by (auto intro: cat_into_keeps keeps_refl)
  with assms(2,3) show ?thesis by (simp add: keeps_overrides_def)
next
  case False
  with assms(1) obtain es1 es2 w1 f where
    e: "default_edgeStyle task subTask es w = Inr es1"
    and t: "default_triggerStyle task subTask es1 w = Inr (es2, w1)"
    and u: "cat_into f es2 ''unmerging'' w1 = Inr es'"
    apply (simp only: default_exampleStyles_def if_False)
    apply (drule then_do_Inr, elim exE conjE)+
    apply (auto dest!: then_do_Inr)
    done
  from edge_keeps [OF e] assms(2,3) have 1: "es1 j = Some (Some v)"
    by (simp add: keeps_overrides_def)
  from trigger_keeps [OF t] have 2: "es2 j = Some (Some v)"
  proof
    assume "task \<in> set [''BI11-FULL'', ''DDI11-FULL'']
              \<and> es2 = es1(''trigger'' \<mapsto> Some ''build_for_nameless:names'')"
    with assms(4) False 1 show ?thesis by auto
  next
    assume "keeps_overrides es1 es2"
    with 1 assms(3) show ?thesis by (simp add: keeps_overrides_def)
  qed
  from cat_into_keeps [OF u] 2 assms(3) show ?thesis by (simp add: keeps_overrides_def)
qed

text \<open>
  Under the rule of \<^verbatim>\<open>Parameters.cat\<close>, every other example-style slot and every
  classifier-parameter slot that held a non-empty override still holds it after a
  successful resolution for a task.
\<close>

lemma getTaskSettings_keeps_overrides:
  assumes "getTaskSettings dataPath (Some t) detector pu pm iss bio pre inputFiles es cp w = Inr (r, w')"
  shows "(\<forall>k v. es k = Some (Some v) \<and> v \<noteq> []
              \<and> \<not> (k = ''trigger'' \<and> \<not> ts_isSingleStage r
                      \<and> normal_task t \<in> set [''BI11-FULL'', ''DDI11-FULL''])
            \<longrightarrow> ts_exampleStyles r k = Some (Some v))
       \<and> (\<forall>k v. cp k = Some (Some v) \<and> v \<noteq> [] \<longrightarrow> ts_classifierParameters r k = Some (Some v))"
proof -
  from getTaskSettings_Inr [OF assms] obtain subTask w1 where
    e: "default_exampleStyles (normal_task t) subTask (ts_isSingleStage r) es w1
          = Inr (ts_exampleStyles r, w')"
    and c: "default_classifierParameters (normal_task t) (ts_isSingleStage r) cp w'
          = Inr (ts_classifierParameters r)"
    by auto
  have "keeps_overrides cp (ts_classifierParameters r)" using c by (rule params_keep)
  then show ?thesis
    using styles_keep [OF e] by (simp add: keeps_overrides_def)
qed

text \<open>
  C2. BI11-FULL with no overrides: the evaluation parameters are \<^verbatim>\<open>convert:scores\<close>, and
  the preprocessing parameters are still None: the fragment that omits NER and
  DIVIDE-SETS is computed and dropped.
\<close>

theorem getTaskSettings_BI11_FULL:
  "(case getTaskSettings ''corpora'' (Some ''BI11-FULL'') None None None False None None
           no_files no_styles no_params empty_world of
      Inl e \<Rightarrow> None
    | Inr (r, w) \<Rightarrow> Some (ts_bioNLPSTParams r, ts_preprocessorParams r))
   = Some (Some ''convert:scores'', None)"
  by (simp add: task_eval)

text \<open>
  Resolution returns for each of the sixteen recognized task names, when the
  dictionaries have their keys and the global \<^verbatim>\<open>options\<close> exists.
\<close>

lemma cat_into_Inr: "d k = Some v \<Longrightarrow> cat_into f d k w = Inr (d(k \<mapsto> cat (Some f) v))"
  by (simp add: cat_into_def getitem_def then_do_def)

lemma cat_into_ok: "k \<in> dom d \<Longrightarrow> \<exists>d'. cat_into f d k w = Inr d' \<and> dom d' = dom d"
  by (auto simp: cat_into_Inr)

lemma edge_ok:
  assumes "''edge'' \<in> dom es"
  shows "\<exists>es'. default_edgeStyle task subTask es w = Inr es' \<and> dom es' = dom es"
proof -
  from assms obtain v where v: "es ''edge'' = Some v" by auto
  then have i: "insert ''edge'' (dom es) = dom es" by auto
  show ?thesis
    unfolding default_edgeStyle_def
    by (simp add: cat_into_Inr v then_do_def i)
qed

lemma trigger_ok:
  assumes "''trigger'' \<in> dom es" and "globals_options w = Some opts"
  shows "\<exists>es' w'. default_triggerStyle task subTask es w = Inr (es', w') \<and> dom es' = dom es
           \<and> globals_options w' \<noteq> None"
proof -
  from assms obtain v where v: "es ''trigger'' = Some v" by auto
  then have i: "insert ''trigger'' (dom es) = dom es" by auto
  show ?thesis
    unfolding default_triggerStyle_def
    using assms(2) by (simp add: cat_into_Inr v then_do_def i)
qed

lemma styles_ok:
  assumes "{''examples'', ''trigger'', ''edge'', ''unmerging''} \<subseteq> dom es"
    and "globals_options w = Some opts"
  shows "\<exists>es' w'. default_exampleStyles task subTask iss es w = Inr (es', w') \<and> dom es' = dom es"
proof (cases iss)
  case True
  from assms obtain v where v: "es ''examples'' = Some v" by auto
  then have i: "insert ''examples'' (dom es) = dom es" by auto
  show ?thesis
    unfolding default_exampleStyles_def
    using True by (simp add: cat_into_Inr v then_do_def i)
next
  case False
  from assms have "''edge'' \<in> dom es" by simp
  from edge_ok [OF this] obtain es1 where
    1: "default_edgeStyle task subTask es w = Inr es1" "dom es1 = dom es" by blast
  with assms have "''trigger'' \<in> dom es1" by simp
  from trigger_ok [OF this assms(2)] obtain es2 w2 where
    2: "default_triggerStyle task subTask es1 w = Inr (es2, w2)" "dom es2 = dom es1" by blast
  with 1 assms have "''unmerging'' \<in> dom es2" by simp
  from cat_into_ok [OF this] obtain es3 where
    3: "cat_into ''trigger_features:typed:directed:no_linear:entities:genia_limits:noMasking:maxFeatures''
                   es2 ''unmerging'' w2 = Inr es3" "dom es3 = dom es2" by blast
  show ?thesis
    unfolding default_exampleStyles_def
    using False 1 2 3 by (simp add: then_do_def)
qed

lemma params_ok:
  assumes "{''examples'', ''trigger'', ''recall'', ''edge'', ''unmerging'', ''modifiers''} \<subseteq> dom cp"
  shows "\<exists>cp'. default_classifierParameters task iss cp w = Inr cp'"
proof -
  from assms obtain v1 v2 v3 v4 v5 v6 where
    v: "cp ''examples'' = Some v1" "cp ''trigger'' = Some v2" "cp ''recall'' = Some v3"
       "cp ''edge'' = Some v4" "cp ''unmerging'' = Some v5" "cp ''modifiers'' = Some v6"
    by auto
  show ?thesis
    unfolding default_classifierParameters_def
    by (simp add: cat_into_Inr then_do_def v)
qed

lemma inputFiles_ok:
  assumes "{''train'', ''devel'', ''test''} \<subseteq> dom inputFiles" and "globals_options w = Some opts"
  shows "\<exists>f' w'. default_inputFiles dataPath task inputFiles w = Inr (f', w')
           \<and> globals_options w' = Some opts"
proof -
  from assms obtain v1 v2 v3 where
    v: "inputFiles ''train'' = Some v1" "inputFiles ''devel'' = Some v2" "inputFiles ''test'' = Some v3"
    by auto
  show ?thesis
    unfolding default_inputFiles_def
    using assms(2) by (simp add: getitem_def then_do_def v catenate_def Let_def)
qed

lemma removeNames_ok:
  assumes "{''examples'', ''trigger''} \<subseteq> dom es"
  shows "\<exists>b. removeNames iss es w = Inr b"
  using assms by (auto simp: removeNames_def getitem_def then_do_def)

lemma recognized_split:
  assumes "t \<in> set recognizedTasks"
  shows "py_replace ''-MINI'' [] t \<in> set recognizedTasks
       \<and> (\<exists>task1 subTask. split_task t w = Inr (task1, subTask))"
proof -
  from assms have "t = ''GE09'' \<or> t = ''GE09.1'' \<or> t = ''GE09.2'' \<or> t = ''GE11'' \<or> t = ''GE11.1''
     \<or> t = ''GE11.2'' \<or> t = ''EPI11'' \<or> t = ''ID11'' \<or> t = ''BB11'' \<or> t = ''BI11''
     \<or> t = ''BI11-FULL'' \<or> t = ''CO11'' \<or> t = ''REL11'' \<or> t = ''REN11'' \<or> t = ''DDI11''
     \<or> t = ''DDI11-FULL''"
    by (simp add: recognizedTasks_def)
  then show ?thesis
    by (elim disjE)
       (simp_all add: recognizedTasks_def py_replace_def split_task_def py_int_def is_blank_def
          digit_of_def)
qed

lemma getTaskSettings_returns:
  assumes t: "t \<in> set recognizedTasks"
    and i: "{''train'', ''devel'', ''test''} \<subseteq> dom inputFiles"
    and e: "{''examples'', ''trigger'', ''edge'', ''unmerging''} \<subseteq> dom es"
    and c: "{''examples'', ''trigger'', ''recall'', ''edge'', ''unmerging'', ''modifiers''} \<subseteq> dom cp"
    and o: "globals_options w = Some opts"
  shows "\<exists>r w'. getTaskSettings dataPath (Some t) detector pu pm iss bio pre inputFiles es cp w
                  = Inr (r, w')"
proof -
  from recognized_split [OF t] obtain task1 subTask where
    r: "py_replace ''-MINI'' [] t \<in> set recognizedTasks"
    and s: "split_task t w = Inr (task1, subTask)"
    by blast
  from inputFiles_ok [OF i o] obtain f1 w1 where
    f: "default_inputFiles dataPath task1 inputFiles w = Inr (f1, w1)"
    and o1: "globals_options w1 = Some opts"
    by blast
  obtain d1 iss1 where d: "default_detector (py_replace ''-MINI'' [] task1) detector iss = (d1, iss1)"
    by (cases "default_detector (py_replace ''-MINI'' [] task1) detector iss")
  from styles_ok [OF e o1] obtain es1 w2 where
    st: "default_exampleStyles (py_replace ''-MINI'' [] task1) subTask iss1 es w1 = Inr (es1, w2)"
    and de: "dom es1 = dom es"
    by blast
  from params_ok [OF c] obtain cp1 where
    p: "default_classifierParameters (py_replace ''-MINI'' [] task1) iss1 cp w2 = Inr cp1"
    by blast
  from e de have "{''examples'', ''trigger''} \<subseteq> dom es1" by simp
  from removeNames_ok [OF this] obtain b where b: "removeNames iss1 es1 w2 = Inr b" by blast
  show ?thesis
    unfolding getTaskSettings_def
    using r s f d st p b by (simp add: then_do_def)
qed

text \<open>
  The trigger style of BI11-FULL and DDI11-FULL is assigned, not combined with the value
  the caller gave: line 390 has no \<^verbatim>\<open>Parameters.cat\<close>, unlike the other trigger
  branches and the edge branch of the same two tasks.
\<close>

lemma cat_into_other: "cat_into f d k w = Inr d' \<Longrightarrow> j \<noteq> k \<Longrightarrow> d' j = d j"
  by (auto simp: cat_into_def getitem_def then_do_def split: option.splits)

lemma trigger_FULL:
  "task \<in> set [''BI11-FULL'', ''DDI11-FULL''] \<Longrightarrow>
     default_triggerStyle task subTask es w
       = Inr (es(''trigger'' \<mapsto> Some ''build_for_nameless:names''), w)"
  by (auto simp: default_triggerStyle_def)

lemma styles_FULL:
  assumes "default_exampleStyles task subTask False es w = Inr (es', w')"
    and "task \<in> set [''BI11-FULL'', ''DDI11-FULL'']"
  shows "es' ''trigger'' = Some (Some ''build_for_nameless:names'')"
proof -
  from assms(1) obtain es1 es2 w1 f where
    t: "default_triggerStyle task subTask es1 w = Inr (es2, w1)"
    and u: "cat_into f es2 ''unmerging'' w1 = Inr es'"
    apply (simp only: default_exampleStyles_def if_False)
    apply (drule then_do_Inr, elim exE conjE)+
    apply (auto dest!: then_do_Inr)
    done
  from t have "es2 = es1(''trigger'' \<mapsto> Some ''build_for_nameless:names'')"
    by (simp add: trigger_FULL [OF assms(2)])
  with cat_into_other [OF u, of "''trigger''"] show ?thesis by simp
qed

lemma normal_task_FULL:
  "t \<in> set [''BI11-FULL'', ''DDI11-FULL''] \<Longrightarrow> normal_task t = t"
  by (auto simp: normal_task_def py_replace_def)

text \<open>
  C1. For BI11-FULL and DDI11-FULL with a multi-stage detector the caller's trigger
  style is lost. With the dictionaries complete and the global \<^verbatim>\<open>options\<close> present,
  the resolution of these two tasks returns, multi-stage when the caller asked for no
  single-stage detector; and whenever a resolution of one of them returns multi-stage, the
  trigger style is \<^verbatim>\<open>build_for_nameless:names\<close>, whatever the caller gave for that slot.
\<close>

theorem getTaskSettings_trigger_overwritten:
  "(t \<in> set [''BI11-FULL'', ''DDI11-FULL'']
      \<and> {''train'', ''devel'', ''test''} \<subseteq> dom inputFiles
      \<and> {''examples'', ''trigger'', ''edge'', ''unmerging''} \<subseteq> dom es
      \<and> {''examples'', ''trigger'', ''recall'', ''edge'', ''unmerging'', ''modifiers''} \<subseteq> dom cp
      \<and> globals_options w = Some opts
     \<longrightarrow> (\<exists>r w'. getTaskSettings dataPath (Some t) detector pu pm False bio pre inputFiles es cp w
                    = Inr (r, w')
                 \<and> \<not> ts_isSingleStage r))
   \<and> (getTaskSettings dataPath (Some t) detector pu pm iss bio pre inputFiles es cp w = Inr (r, w')
        \<and> normal_task t \<in> set [''BI11-FULL'', ''DDI11-FULL''] \<and> \<not> ts_isSingleStage r
     \<longrightarrow> ts_exampleStyles r ''trigger'' = Some (Some ''build_for_nameless:names''))"
proof (intro conjI impI)
  assume h: "t \<in> set [''BI11-FULL'', ''DDI11-FULL'']
      \<and> {''train'', ''devel'', ''test''} \<subseteq> dom inputFiles
      \<and> {''examples'', ''trigger'', ''edge'', ''unmerging''} \<subseteq> dom es
      \<and> {''examples'', ''trigger'', ''recall'', ''edge'', ''unmerging'', ''modifiers''} \<subseteq> dom cp
      \<and> globals_options w = Some opts"
  note 0 = h [THEN conjunct1]
  from 0 have 1: "t \<in> set recognizedTasks" by (auto simp: recognizedTasks_def)
  note 2 = h [THEN conjunct2, THEN conjunct1]
  note 3 = h [THEN conjunct2, THEN conjunct2, THEN conjunct1]
  note 4 = h [THEN conjunct2, THEN conjunct2, THEN conjunct2, THEN conjunct1]
  note 5 = h [THEN conjunct2, THEN conjunct2, THEN conjunct2, THEN conjunct2]
  from getTaskSettings_returns [OF 1 2 3 4 5] obtain r w' where
    r: "getTaskSettings dataPath (Some t) detector pu pm False bio pre inputFiles es cp w = Inr (r, w')"
    by blast
  from getTaskSettings_Inr [OF r]
  have "ts_isSingleStage r = snd (default_detector (normal_task t) detector False)"
    by auto
  moreover from 0 have "snd (default_detector t detector False) = False"
    by (auto simp: default_detector_def)
  ultimately have "\<not> ts_isSingleStage r"
    by (simp add: normal_task_FULL [OF 0])
  with r show "\<exists>r w'. getTaskSettings dataPath (Some t) detector pu pm False bio pre inputFiles es cp w
                    = Inr (r, w')
                 \<and> \<not> ts_isSingleStage r"
    by blast
next
  assume h: "getTaskSettings dataPath (Some t) detector pu pm iss bio pre inputFiles es cp w = Inr (r, w')
        \<and> normal_task t \<in> set [''BI11-FULL'', ''DDI11-FULL''] \<and> \<not> ts_isSingleStage r"
  note r = h [THEN conjunct1]
  note n = h [THEN conjunct2, THEN conjunct1]
  note s = h [THEN conjunct2, THEN conjunct2]
  from getTaskSettings_Inr [OF r] obtain subTask w1 where
    "default_exampleStyles (normal_task t) subTask (ts_isSingleStage r) es w1
       = Inr (ts_exampleStyles r, w')"
    by auto
  with s have "default_exampleStyles (normal_task t) subTask False es w1
       = Inr (ts_exampleStyles r, w')"
    by simp
  then show "ts_exampleStyles r ''trigger'' = Some (Some ''build_for_nameless:names'')"
    using n by (rule styles_FULL)
qed

theorem getTaskSettings_trigger_overwritten_witness:
  "styles_mine ''trigger'' = Some (Some ''mystyle'')
   \<and> (\<exists>r w'. getTaskSettings ''corpora'' (Some ''BI11-FULL'') None None None False None None
                no_files styles_mine no_params script_world = Inr (r, w')
            \<and> \<not> ts_isSingleStage r
            \<and> ts_exampleStyles r ''trigger'' = Some (Some ''build_for_nameless:names''))"
proof -
  have pre: "''BI11-FULL'' \<in> set [''BI11-FULL'', ''DDI11-FULL'']
      \<and> {''train'', ''devel'', ''test''} \<subseteq> dom no_files
      \<and> {''examples'', ''trigger'', ''edge'', ''unmerging''} \<subseteq> dom styles_mine
      \<and> {''examples'', ''trigger'', ''recall'', ''edge'', ''unmerging'', ''modifiers''} \<subseteq> dom no_params
      \<and> globals_options script_world
          = Some \<lparr>opt_copyFrom = None, opt_triggerExampleBuilder = None\<rparr>"
    by (simp add: no_files_def styles_mine_def no_params_def script_world_def)
  note th = getTaskSettings_trigger_overwritten [where t = "''BI11-FULL''" and inputFiles = no_files
      and es = styles_mine and cp = no_params and w = script_world and dataPath = "''corpora''"
      and detector = None and pu = None and pm = None and bio = None and pre = None
      and iss = False
      and opts = "\<lparr>opt_copyFrom = None, opt_triggerExampleBuilder = None\<rparr>"]
  from th [THEN conjunct1, THEN mp, OF pre] obtain r w' where
    r: "getTaskSettings ''corpora'' (Some ''BI11-FULL'') None None None False None None
                no_files styles_mine no_params script_world = Inr (r, w')"
    and s: "\<not> ts_isSingleStage r"
    by blast
  have n: "normal_task ''BI11-FULL'' \<in> set [''BI11-FULL'', ''DDI11-FULL'']"
    by (simp add: normal_task_def py_replace_def)
  have "ts_exampleStyles r ''trigger'' = Some (Some ''build_for_nameless:names'')"
    by (rule th [where r = r and w' = w', THEN conjunct2, THEN mp]) (intro conjI r s n)
  moreover have "styles_mine ''trigger'' = Some (Some ''mystyle'')"
    by (simp add: styles_mine_def)
  ultimately show ?thesis using r s by blast
qed

text \<open>
  C6, as the code has it. For each recognized task name, with the dictionaries complete
  and the global \<^verbatim>\<open>options\<close> present, resolution returns. With both toggles unset, a
  successful resolution leaves unmerging unset for a single-stage detector and defaults
  it, for a multi-stage one, to false for CO11, REL11, BB11, BI11-FULL and DDI11-FULL and
  to true otherwise; modifier prediction defaults to true for GE11 (with or without a
  sub-task), EPI11 and ID11 and to false otherwise. The task is judged by its name
  without sub-task and \<^verbatim>\<open>-MINI\<close>; the last part lists that name for each recognized task.
\<close>

theorem getTaskSettings_toggle_defaults:
  "(t \<in> set recognizedTasks
      \<and> {''train'', ''devel'', ''test''} \<subseteq> dom inputFiles
      \<and> {''examples'', ''trigger'', ''edge'', ''unmerging''} \<subseteq> dom es
      \<and> {''examples'', ''trigger'', ''recall'', ''edge'', ''unmerging'', ''modifiers''} \<subseteq> dom cp
      \<and> globals_options w = Some opts
     \<longrightarrow> (\<exists>r w'. getTaskSettings dataPath (Some t) detector None None iss bio pre inputFiles es cp w
                    = Inr (r, w')))
   \<and> (getTaskSettings dataPath (Some t) detector None None iss bio pre inputFiles es cp w = Inr (r, w')
     \<longrightarrow> ts_processUnmerging r =
           (if ts_isSingleStage r then None
            else Some (normal_task t \<notin> set [''CO11'', ''REL11'', ''BB11'', ''BI11-FULL'', ''DDI11-FULL'']))
         \<and> ts_processModifiers r = Some (normal_task t \<in> set [''GE11'', ''EPI11'', ''ID11'']))
   \<and> map normal_task recognizedTasks =
       [''GE09'', ''GE09'', ''GE09'', ''GE11'', ''GE11'', ''GE11'', ''EPI11'', ''ID11'',
        ''BB11'', ''BI11'', ''BI11-FULL'', ''CO11'', ''REL11'', ''REN11'', ''DDI11'', ''DDI11-FULL'']"
proof (intro conjI impI)
  assume h: "t \<in> set recognizedTasks
      \<and> {''train'', ''devel'', ''test''} \<subseteq> dom inputFiles
      \<and> {''examples'', ''trigger'', ''edge'', ''unmerging''} \<subseteq> dom es
      \<and> {''examples'', ''trigger'', ''recall'', ''edge'', ''unmerging'', ''modifiers''} \<subseteq> dom cp
      \<and> globals_options w = Some opts"
  note 1 = h [THEN conjunct1]
  note 2 = h [THEN conjunct2, THEN conjunct1]
  note 3 = h [THEN conjunct2, THEN conjunct2, THEN conjunct1]
  note 4 = h [THEN conjunct2, THEN conjunct2, THEN conjunct2, THEN conjunct1]
  note 5 = h [THEN conjunct2, THEN conjunct2, THEN conjunct2, THEN conjunct2]
  show "\<exists>r w'. getTaskSettings dataPath (Some t) detector None None iss bio pre inputFiles es cp w
                    = Inr (r, w')"
    by (rule getTaskSettings_returns [OF 1 2 3 4 5])
next
  assume a: "getTaskSettings dataPath (Some t) detector None None iss bio pre inputFiles es cp w
               = Inr (r, w')"
  from getTaskSettings_Inr [OF a] have
    u: "ts_processUnmerging r = default_processUnmerging (normal_task t) (ts_isSingleStage r) None"
    by auto
  then show "ts_processUnmerging r =
           (if ts_isSingleStage r then None
            else Some (normal_task t \<notin> set [''CO11'', ''REL11'', ''BB11'', ''BI11-FULL'', ''DDI11-FULL'']))"
    by (simp add: default_processUnmerging_def)
next
  assume a: "getTaskSettings dataPath (Some t) detector None None iss bio pre inputFiles es cp w
               = Inr (r, w')"
  from getTaskSettings_Inr [OF a] have
    m: "ts_processModifiers r = default_processModifiers (normal_task t) None"
    by auto
  then show "ts_processModifiers r = Some (normal_task t \<in> set [''GE11'', ''EPI11'', ''ID11''])"
    by (simp add: default_processModifiers_def)
next
  show "map normal_task recognizedTasks =
       [''GE09'', ''GE09'', ''GE09'', ''GE11'', ''GE11'', ''GE11'', ''EPI11'', ''ID11'',
        ''BB11'', ''BI11'', ''BI11-FULL'', ''CO11'', ''REL11'', ''REN11'', ''DDI11'', ''DDI11-FULL'']"
    by (simp add: normal_task_def recognizedTasks_def py_replace_def)
qed

theorem getTaskSettings_toggle_defaults_witness:
  "\<exists>r w'. getTaskSettings ''corpora'' (Some ''GE11.1'') None None None False None None
             no_files no_styles no_params script_world = Inr (r, w')
     \<and> ts_processUnmerging r = Some True \<and> ts_processModifiers r = Some True"
proof -
  note th = getTaskSettings_toggle_defaults [where t = "''GE11.1''" and inputFiles = no_files
      and es = no_styles and cp = no_params and w = script_world and dataPath = "''corpora''"
      and detector = None and iss = False and bio = None and pre = None
      and opts = "\<lparr>opt_copyFrom = None, opt_triggerExampleBuilder = None\<rparr>"]
  have "\<exists>r w'. getTaskSettings ''corpora'' (Some ''GE11.1'') None None None False None None
             no_files no_styles no_params script_world = Inr (r, w')"
    by (rule th [THEN conjunct1, THEN mp])
       (simp add: recognizedTasks_def no_files_def no_styles_def no_params_def script_world_def)
  then obtain r w' where
    r: "getTaskSettings ''corpora'' (Some ''GE11.1'') None None None False None None
             no_files no_styles no_params script_world = Inr (r, w')"
    by blast
  from getTaskSettings_Inr [OF r]
  have s: "\<not> ts_isSingleStage r"
    by (auto simp: default_detector_def normal_task_def py_replace_def)
  have n: "normal_task ''GE11.1'' = ''GE11''" by (simp add: normal_task_def py_replace_def)
  from th [where r = r and w' = w', THEN conjunct2, THEN conjunct1, THEN mp, OF r] s
  have "ts_processUnmerging r = Some True \<and> ts_processModifiers r = Some True"
    by (simp add: n)
  with r show ?thesis by blast
qed

text \<open>Five recognized tasks, not four, have unmerging off by default.\<close>

theorem getTaskSettings_unmerging_counterexample:
  "(case getTaskSettings ''corpora'' (Some ''CO11'') None None None False None None
           no_files no_styles no_params script_world of
      Inl e \<Rightarrow> None | Inr (r, w) \<Rightarrow> Some (ts_isSingleStage r, ts_processUnmerging r))
     = Some (False, Some False)
   \<and> (case getTaskSettings ''corpora'' (Some ''REL11'') None None None False None None
           no_files no_styles no_params script_world of
      Inl e \<Rightarrow> None | Inr (r, w) \<Rightarrow> Some (ts_isSingleStage r, ts_processUnmerging r))
     = Some (False, Some False)
   \<and> (case getTaskSettings ''corpora'' (Some ''BB11'') None None None False None None
           no_files no_styles no_params script_world of
      Inl e \<Rightarrow> None | Inr (r, w) \<Rightarrow> Some (ts_isSingleStage r, ts_processUnmerging r))
     = Some (False, Some False)
   \<and> (case getTaskSettings ''corpora'' (Some ''BI11-FULL'') None None None False None None
           no_files no_styles no_params script_world of
      Inl e \<Rightarrow> None | Inr (r, w) \<Rightarrow> Some (ts_isSingleStage r, ts_processUnmerging r))
     = Some (False, Some False)
   \<and> (case getTaskSettings ''corpora'' (Some ''DDI11-FULL'') None None None False None None
           no_files no_styles no_params script_world of
      Inl e \<Rightarrow> None | Inr (r, w) \<Rightarrow> Some (ts_isSingleStage r, ts_processUnmerging r))
     = Some (False, Some False)"
  by (intro conjI) (simp_all add: task_eval)


section \<open>Properties of the names flag and of the phases\<close>







lemma os_path_exists_banner: "os_path_exists (banner title w) p = os_path_exists w p"
  by (simp add: banner_def py_print_def os_path_exists_def)












text \<open>
  C9. When the selector lets the TEST phase run and the test input is None or names no
  existing file, the phase returns without an error, and the world it leaves differs only
  by the banner and the line that says it skips: the detector is not called. If the
  three phases before returned, so do the phases as a whole.
\<close>

theorem train_TEST_skipped:
  assumes "shouldRun selector ''TEST''" and "inputFiles ''test'' = Some test"
    and "test = None \<or> (\<exists>path. test = Some path \<and> \<not> os_path_exists w path)"
  shows "train_TEST env selector detectorSteps inputFiles models (stparams, w) =
           Inr (stparams,
                py_print [''Skipping, test file'', py_str test, ''does not exist'']
                  (banner ''------------- Test set classification --------------'' w))
       \<and> (train_TRAIN env selector detectorSteps isSingleStage inputFiles models exampleStyles
              classifierParams processUnmerging processModifiers doFullGrid task parse
              preprocessorParams detectorName st = Inr st1
            \<and> train_DEVEL env selector detectorSteps inputFiles models st1 = Inr st2
            \<and> train_EMPTY env selector detectorSteps inputFiles models removeNamesFromEmpty st2
                = Inr (stparams, w)
          \<longrightarrow> train_phases env selector detectorSteps isSingleStage inputFiles models exampleStyles
                classifierParams processUnmerging processModifiers doFullGrid task parse
                preprocessorParams detectorName removeNamesFromEmpty st =
              Inr (stparams,
                   py_print [''Skipping, test file'', py_str test, ''does not exist'']
                     (banner ''------------- Test set classification --------------'' w)))"
proof -
  have t: "train_TEST env selector detectorSteps inputFiles models (stparams, w) =
           Inr (stparams,
                py_print [''Skipping, test file'', py_str test, ''does not exist'']
                  (banner ''------------- Test set classification --------------'' w))"
    using assms
    by (auto simp: train_TEST_def Let_def then_do_def getitem_def os_path_exists_banner)
  then show ?thesis
    by (simp add: train_phases_def then_do_def)
qed

theorem train_TEST_skipped_witness:
  "train_phases test_env (StepSelector mainSteps0 (Some ''TEST'') []) Map.empty False no_files
     Map.empty no_styles no_params None None False None None None ''EventDetector'' False
     (Map.empty, empty_world)
   = Inr (Map.empty,
          py_print [''Skipping, test file'', ''None'', ''does not exist'']
            (banner ''------------- Test set classification --------------'' empty_world))"
proof -
  have run: "shouldRun (StepSelector mainSteps0 (Some ''TEST'') []) ''TEST''"
    by (simp add: shouldRun_def StepSelector_def mainSteps0_def)
  have tfile: "no_files ''test'' = Some None" by (simp add: no_files_def)
  have absent: "(None :: string option) = None \<or> (\<exists>path. None = Some path \<and> \<not> os_path_exists empty_world path)"
    by simp
  note th = train_TEST_skipped [where selector = "StepSelector mainSteps0 (Some ''TEST'') []"
      and inputFiles = no_files and test = None and w = empty_world and env = test_env
      and detectorSteps = Map.empty and models = Map.empty and stparams = Map.empty
      and isSingleStage = False and exampleStyles = no_styles and classifierParams = no_params
      and processUnmerging = None and processModifiers = None and doFullGrid = False
      and task = None and parse = None and preprocessorParams = None
      and detectorName = "''EventDetector''" and removeNamesFromEmpty = False
      and st = "(Map.empty, empty_world)" and ?st1.0 = "(Map.empty, empty_world)"
      and ?st2.0 = "(Map.empty, empty_world)", OF run tfile absent]
  have skip: "\<not> shouldRun (StepSelector mainSteps0 (Some ''TEST'') []) ''TRAIN''"
    "\<not> shouldRun (StepSelector mainSteps0 (Some ''TEST'') []) ''DEVEL''"
    "\<not> shouldRun (StepSelector mainSteps0 (Some ''TEST'') []) ''EMPTY''"
    by (simp_all add: shouldRun_def StepSelector_def mainSteps0_def)
  have "train_phases test_env (StepSelector mainSteps0 (Some ''TEST'') []) Map.empty False no_files
     Map.empty no_styles no_params None None False None None None ''EventDetector'' False
     (Map.empty, empty_world)
   = Inr (Map.empty,
          py_print [''Skipping, test file'', py_str None, ''does not exist'']
            (banner ''------------- Test set classification --------------'' empty_world))"
    by (rule th [THEN conjunct2, THEN mp])
       (simp add: train_TRAIN_def train_DEVEL_def train_EMPTY_def skip)
  then show ?thesis by (simp add: py_str_def)
qed


end
